theory Spec2Isabelle
  imports Complex_Main "HOL-Library.Sublist"
begin

section \<open>Numbers of the source language\<close>

text \<open>
  The source is TypeScript (\<^verbatim>\<open>src/dashboard/components/map/RouteMap.tsx\<close>); its
  numbers are IEEE doubles: NaN, the two infinities, or a finite value. Every finite
  double is a rational number, and \<^verbatim>\<open>>=\<close>, \<^verbatim>\<open>===\<close> and truthiness of
  doubles are decided by that value, so a finite number is modelled by its value in
  \<^typ>\<open>rat\<close>. The two zeros of IEEE are both \<open>Fin 0\<close>: they are \<^verbatim>\<open>===\<close> and both
  falsy. The constants the source compares with (0, 37, 36.5) are doubles exactly.
\<close>

datatype jsnum = NaN | PInf | NInf | Fin rat

text \<open>\<^verbatim>\<open>isNaN(x)\<close> on a number.\<close>

definition isNaN :: "jsnum \<Rightarrow> bool" where
  "isNaN x = (x = NaN)"

text \<open>\<^verbatim>\<open>Number.isFinite(x)\<close>: what the specification calls a finite number.\<close>

fun isFinite :: "jsnum \<Rightarrow> bool" where
  "isFinite (Fin _) = True"
| "isFinite _ = False"

text \<open>Truthiness of a number in \<^verbatim>\<open>x && ...\<close> and \<^verbatim>\<open>!x\<close>: NaN and zero are falsy.\<close>

definition truthy :: "jsnum \<Rightarrow> bool" where
  "truthy x = (x \<noteq> NaN \<and> x \<noteq> Fin 0)"

text \<open>\<^verbatim>\<open>x === y\<close> on numbers: NaN is equal to nothing.\<close>

definition strictEq :: "jsnum \<Rightarrow> jsnum \<Rightarrow> bool" where
  "strictEq x y = (x \<noteq> NaN \<and> y \<noteq> NaN \<and> x = y)"

text \<open>\<^verbatim>\<open>x >= y\<close> on numbers: false as soon as one side is NaN.\<close>

fun jsGe :: "jsnum \<Rightarrow> jsnum \<Rightarrow> bool" where
  "jsGe NaN _ = False"
| "jsGe _ NaN = False"
| "jsGe PInf _ = True"
| "jsGe _ NInf = True"
| "jsGe NInf _ = False"
| "jsGe _ PInf = False"
| "jsGe (Fin a) (Fin b) = (b \<le> a)"

definition jsLe :: "jsnum \<Rightarrow> jsnum \<Rightarrow> bool" where
  "jsLe x y = jsGe y x"

text \<open>\<^verbatim>\<open>Math.min\<close> and \<^verbatim>\<open>Math.max\<close> of two numbers: NaN if one of them is.\<close>

definition jsMin :: "jsnum \<Rightarrow> jsnum \<Rightarrow> jsnum" where
  "jsMin x y = (if isNaN x \<or> isNaN y then NaN else if jsLe x y then x else y)"

definition jsMax :: "jsnum \<Rightarrow> jsnum \<Rightarrow> jsnum" where
  "jsMax x y = (if isNaN x \<or> isNaN y then NaN else if jsGe x y then x else y)"

text \<open>
  The two library functions whose text-to-number and number-to-text conversions the
  component calls, \<^verbatim>\<open>parseFloat(s)\<close> and \<^verbatim>\<open>x.toFixed(1)\<close>, are parameters of the model:
  every theorem below holds for whatever they compute.
\<close>

record builtins =
  parseFloat :: "string \<Rightarrow> jsnum"
  toFixed1 :: "jsnum \<Rightarrow> string"

section \<open>The route records\<close>

text \<open>
  \<^verbatim>\<open>ProcessedRoute\<close> is imported from \<^verbatim>\<open>@/lib/types\<close>; the fields are the ones the
  component reads. A field read through \<^verbatim>\<open>?.\<close> or tested before use is optional
  (\<open>None\<close> is \<^verbatim>\<open>undefined\<close> or \<^verbatim>\<open>null\<close>); a field read directly is present.
  Fields that are only rendered as text are strings.
\<close>

record flowCoord =
  lat :: jsnum
  lon :: jsnum

record variant =
  flowCoordinates :: "flowCoord option list option"

record stopLocation =
  name :: string
  latitude :: "string option"
  longitude :: "string option"
  isTransportHub :: "bool option"

record routeStop =
  stop_id :: string
  stop :: "stopLocation option"
  totalDistance :: jsnum

record processedRoute =
  route_id :: string
  number :: string
  firstPoint :: string
  lastPoint :: string
  avgSpeed :: jsnum
  routLength :: string
  stopCount :: string
  carrier :: string
  stops :: "routeStop list option"
  routes :: "variant list option"

section \<open>Coordinate validation\<close>

text \<open>\<^verbatim>\<open>stop.stop?.latitude || "0"\<close>: a missing location, a missing text and the empty
  text all become \<^verbatim>\<open>"0"\<close>.\<close>

definition orZero :: "string option \<Rightarrow> string" where
  "orZero t = (case t of None \<Rightarrow> ''0'' | Some s \<Rightarrow> if s = [] then ''0'' else s)"

definition stopLat :: "builtins \<Rightarrow> routeStop \<Rightarrow> jsnum" where
  "stopLat B s = parseFloat B (orZero (case stop s of None \<Rightarrow> None | Some l \<Rightarrow> latitude l))"

definition stopLon :: "builtins \<Rightarrow> routeStop \<Rightarrow> jsnum" where
  "stopLon B s = parseFloat B (orZero (case stop s of None \<Rightarrow> None | Some l \<Rightarrow> longitude l))"

text \<open>Line 36, the test of the bounds accumulation on a stop:
  \<^verbatim>\<open>lat && lon && !isNaN(lat) && !isNaN(lon) && lat !== 0 && lon !== 0\<close>.\<close>

definition stopCoordOk :: "jsnum \<Rightarrow> jsnum \<Rightarrow> bool" where
  "stopCoordOk la lo =
     (truthy la \<and> truthy lo \<and> \<not> isNaN la \<and> \<not> isNaN lo \<and>
      \<not> strictEq la (Fin 0) \<and> \<not> strictEq lo (Fin 0))"

text \<open>Line 154, the test of the stop markers, on which the marker is dropped:
  \<^verbatim>\<open>!lat || !lon || isNaN(lat) || isNaN(lon) || lat === 0 || lon === 0\<close>.\<close>

definition stopCoordRejected :: "jsnum \<Rightarrow> jsnum \<Rightarrow> bool" where
  "stopCoordRejected la lo =
     (\<not> truthy la \<or> \<not> truthy lo \<or> isNaN la \<or> isNaN lo \<or>
      strictEq la (Fin 0) \<or> strictEq lo (Fin 0))"

text \<open>Lines 44, 85 and 112, the test on a flow coordinate (which may be null):
  \<^verbatim>\<open>coord && coord.lat && coord.lon && !isNaN(coord.lat) && !isNaN(coord.lon)\<close>.\<close>

fun flowCoordOk :: "flowCoord option \<Rightarrow> bool" where
  "flowCoordOk None = False"
| "flowCoordOk (Some c) =
     (truthy (lat c) \<and> truthy (lon c) \<and> \<not> isNaN (lat c) \<and> \<not> isNaN (lon c))"

section \<open>Performance colour\<close>

text \<open>Lines 262-266.\<close>

definition getColorBySpeed :: "jsnum \<Rightarrow> string" where
  "getColorBySpeed speed =
     (if jsGe speed (Fin 37) then ''#22c55e''
      else if jsGe speed (Fin 36.5) then ''#eab308''
      else ''#ef4444'')"

text \<open>The tiers, named as the comments of lines 263-265 name the three colours
  (green: fast, yellow: medium, red: slow).\<close>

datatype tier = Fast | Medium | Slow

fun tierColor :: "tier \<Rightarrow> string" where
  "tierColor Fast = ''#22c55e''"
| "tierColor Medium = ''#eab308''"
| "tierColor Slow = ''#ef4444''"

section \<open>Bounds accumulation and viewport fitting (MapUpdater)\<close>

text \<open>Lines 33-39: the stops of a route pushed onto \<^verbatim>\<open>bounds\<close>, in order.\<close>

definition stopPoints :: "builtins \<Rightarrow> processedRoute \<Rightarrow> (jsnum \<times> jsnum) list" where
  "stopPoints B route =
     (case stops route of
        None \<Rightarrow> []
      | Some ss \<Rightarrow>
          map (\<lambda>s. (stopLat B s, stopLon B s))
            (filter (\<lambda>s. stopCoordOk (stopLat B s) (stopLon B s)) ss))"

text \<open>Lines 43-47: one flow coordinate pushed onto \<^verbatim>\<open>bounds\<close>, or skipped.\<close>

fun flowPoint :: "flowCoord option \<Rightarrow> (jsnum \<times> jsnum) list" where
  "flowPoint None = []"
| "flowPoint (Some c) = (if flowCoordOk (Some c) then [(lat c, lon c)] else [])"

definition variantPoints :: "variant \<Rightarrow> (jsnum \<times> jsnum) list" where
  "variantPoints v =
     (case flowCoordinates v of None \<Rightarrow> [] | Some cs \<Rightarrow> concat (map flowPoint cs))"

text \<open>Lines 42-48: the flow coordinates of every variant of a route.\<close>

definition flowPoints :: "processedRoute \<Rightarrow> (jsnum \<times> jsnum) list" where
  "flowPoints route =
     (case routes route of None \<Rightarrow> [] | Some vs \<Rightarrow> concat (map variantPoints vs))"

text \<open>Lines 31-49: the array \<^verbatim>\<open>bounds\<close> after the loop over the routes.\<close>

definition bounds :: "builtins \<Rightarrow> processedRoute list \<Rightarrow> (jsnum \<times> jsnum) list" where
  "bounds B rs = concat (map (\<lambda>route. stopPoints B route @ flowPoints route) rs)"

record region =
  south :: jsnum
  west :: jsnum
  north :: jsnum
  east :: jsnum

definition extendRegion :: "region \<Rightarrow> jsnum \<times> jsnum \<Rightarrow> region" where
  "extendRegion g p =
     \<lparr>south = jsMin (fst p) (south g), west = jsMin (snd p) (west g),
      north = jsMax (fst p) (north g), east = jsMax (snd p) (east g)\<rparr>"

text \<open>
  Modelled from the spec: \<^verbatim>\<open>L.latLngBounds\<close> of the Leaflet library, which is not part
  of the repository. The specification's BoundingRegion is "the minimal rectangle covering
  a set of valid coordinate points; empty if no valid points exist": the rectangle starts
  at the first point and is extended by each further one; no point gives no rectangle.
\<close>

fun latLngBounds :: "(jsnum \<times> jsnum) list \<Rightarrow> region option" where
  "latLngBounds [] = None"
| "latLngBounds (p # ps) =
     Some (foldl extendRegion \<lparr>south = fst p, west = snd p, north = fst p, east = snd p\<rparr> ps)"

text \<open>\<^verbatim>\<open>map.fitBounds(region, { padding: [50, 50] })\<close>, the one call on the map.\<close>

datatype mapCommand = FitBounds "region option" "nat \<times> nat"

text \<open>Lines 29-54: the body of the effect, returning the calls it makes on the map.\<close>

definition mapUpdaterEffect :: "builtins \<Rightarrow> processedRoute list \<Rightarrow> mapCommand list" where
  "mapUpdaterEffect B rs =
     (if length rs > 0 then
        (let b = bounds B rs in
         if length b > 0 then [FitBounds (latLngBounds b) (50, 50)] else [])
      else [])"

text \<open>
  Modelled from the spec: the hook \<^verbatim>\<open>useEffect\<close> of the React library, which is not
  part of the repository, as lines 28 and 55 call it:
  \<^verbatim>\<open>useEffect(body, [routes, map])\<close>. Specification 4.7 has the region recomputed
  "whenever the active route set (post-selection, post-cap) changes by reference or
  content" and no fit command "for an unchanged active set". React runs the body after
  the first render of the component, and after a later render when one of the two
  dependencies is not the same object (\<^verbatim>\<open>Object.is\<close>) as at the render before. An
  object is identified by its reference, a natural number; \<open>prev\<close> is \<open>None\<close> before the
  first render. The component builds the array it passes as \<^verbatim>\<open>routes\<close> anew at each
  of its renders (lines 76-89) and never writes to it, so an array keeps its content
  as long as it keeps its reference.
\<close>

record effectDeps =
  routesRef :: nat
  mapRef :: nat

definition mapUpdaterRender ::
    "builtins \<Rightarrow> effectDeps option \<Rightarrow> effectDeps \<Rightarrow> processedRoute list
      \<Rightarrow> mapCommand list \<times> effectDeps option" where
  "mapUpdaterRender B prev deps rs =
     (if prev = Some deps then ([], Some deps) else (mapUpdaterEffect B rs, Some deps))"

section \<open>Route selection (displayRoutes)\<close>

text \<open>Lines 81-87, the filter's test: \<^verbatim>\<open>route.routes?.some(...)\<close>.\<close>

definition variantHasValid :: "variant \<Rightarrow> bool" where
  "variantHasValid v =
     (case flowCoordinates v of
        None \<Rightarrow> False
      | Some cs \<Rightarrow> length cs > 0 \<and> list_ex flowCoordOk cs)"

definition hasValidFlow :: "processedRoute \<Rightarrow> bool" where
  "hasValidFlow route =
     (case routes route of None \<Rightarrow> False | Some vs \<Rightarrow> list_ex variantHasValid vs)"

text \<open>Lines 76-89. A selected route is an object, hence truthy.\<close>

definition displayRoutes ::
    "processedRoute list \<Rightarrow> processedRoute option \<Rightarrow> processedRoute list" where
  "displayRoutes rs selectedRoute =
     (case selectedRoute of
        Some r \<Rightarrow> [r]
      | None \<Rightarrow> take 30 (filter hasValidFlow rs))"

section \<open>The component and its viewport effect (RouteMap)\<close>

text \<open>
  Lines 60-104, a render of RouteMap as far as the viewport is concerned. Before the
  component is mounted it renders the placeholder of lines 67-73 and the effect of lines
  63-65 sets \<^verbatim>\<open>mounted\<close>. A mounted render computes \<^verbatim>\<open>displayRoutes\<close> (lines 76-89)
  and hands it to MapUpdater (line 104). The array is the value of an array literal or
  of \<^verbatim>\<open>filter(...).slice(0, 30)\<close>, both of which make a new array object at every
  evaluation: its reference is \<open>nextRef\<close>, which no earlier object has. \<open>theMap\<close> is the
  map that \<^verbatim>\<open>useMap()\<close> returns and \<open>updaterDeps\<close> the dependencies of MapUpdater's
  previous render.
\<close>

record routeMapState =
  mounted :: bool
  nextRef :: nat
  theMap :: nat
  updaterDeps :: "effectDeps option"

definition renderRouteMap ::
    "builtins \<Rightarrow> routeMapState \<Rightarrow> processedRoute list \<Rightarrow> processedRoute option
      \<Rightarrow> mapCommand list \<times> routeMapState" where
  "renderRouteMap B st rs selectedRoute =
     (if mounted st then
        (let active = displayRoutes rs selectedRoute;
             deps = \<lparr>routesRef = nextRef st, mapRef = theMap st\<rparr>;
             run = mapUpdaterRender B (updaterDeps st) deps active
         in (fst run, st\<lparr>nextRef := Suc (nextRef st), updaterDeps := snd run\<rparr>))
      else ([], st\<lparr>mounted := True\<rparr>))"

text \<open>The references handed out so far are below \<open>nextRef\<close>.\<close>

definition freshState :: "routeMapState \<Rightarrow> bool" where
  "freshState st =
     (case updaterDeps st of None \<Rightarrow> True | Some d \<Rightarrow> routesRef d < nextRef st)"

section \<open>Overlay construction\<close>

text \<open>
  Reading a property of \<^verbatim>\<open>null\<close> or \<^verbatim>\<open>undefined\<close> throws a TypeError. The source
  guards most reads (\<^verbatim>\<open>?.\<close>, \<^verbatim>\<open>coord &&\<close>); the callback of line 113,
  \<^verbatim>\<open>(coord) => [coord.lat, coord.lon]\<close>, reads without a guard, so it is the one place
  of the model with an error branch. A callback that throws ends the enclosing
  \<^verbatim>\<open>map\<close> and the render with it. Until the component is mounted it renders a
  placeholder (lines 61-73); the definitions below are the render of the mounted
  component.
\<close>

datatype jsError = TypeError

fun coordPair :: "flowCoord option \<Rightarrow> jsError + (jsnum \<times> jsnum)" where
  "coordPair None = Inl TypeError"
| "coordPair (Some c) = Inr (lat c, lon c)"

fun mapE :: "('a \<Rightarrow> jsError + 'b) \<Rightarrow> 'a list \<Rightarrow> jsError + 'b list" where
  "mapE f [] = Inr []"
| "mapE f (x # xs) =
     (case f x of
        Inl e \<Rightarrow> Inl e
      | Inr y \<Rightarrow> (case mapE f xs of Inl e \<Rightarrow> Inl e | Inr ys \<Rightarrow> Inr (y # ys)))"

text \<open>The popup of a path, lines 133-144.\<close>

record routePopup =
  popNumber :: string
  popFirstPoint :: string
  popLastPoint :: string
  popSpeed :: string
  popLength :: string
  popStops :: string
  popCarrier :: string

text \<open>A \<^verbatim>\<open><Polyline>\<close>, lines 121-145: \<open>lineKey\<close> is the pair that the key
  \<^verbatim>\<open>`${route.id}-${idx}`\<close> is printed from, \<open>clicked\<close> the route that the click
  handler passes to \<^verbatim>\<open>onRouteClick\<close>.\<close>

record polyline =
  lineKey :: "string \<times> nat"
  positions :: "(jsnum \<times> jsnum) list"
  color :: string
  weight :: nat
  opacity :: rat
  clicked :: processedRoute
  popup :: routePopup

text \<open>Lines 118-146, the element returned for a variant with coordinates.\<close>

definition polylineElement ::
    "builtins \<Rightarrow> processedRoute option \<Rightarrow> processedRoute \<Rightarrow> nat
      \<Rightarrow> (jsnum \<times> jsnum) list \<Rightarrow> polyline" where
  "polylineElement B selectedRoute route idx coordinates =
     \<lparr>lineKey = (route_id route, idx),
      positions = coordinates,
      color = (if selectedRoute \<noteq> None then ''#3b82f6''
               else getColorBySpeed (avgSpeed route)),
      weight = (if selectedRoute \<noteq> None then 5 else 3),
      opacity = (if selectedRoute \<noteq> None then 0.9 else 0.6),
      clicked = route,
      popup =
        \<lparr>popNumber = number route,
         popFirstPoint = firstPoint route,
         popLastPoint = lastPoint route,
         popSpeed = toFixed1 B (avgSpeed route),
         popLength = routLength route,
         popStops = stopCount route,
         popCarrier = carrier route\<rparr>\<rparr>"

text \<open>Lines 108-147, the callback of \<^verbatim>\<open>route.routes?.map\<close>: \<open>None\<close> is its
  \<^verbatim>\<open>return null\<close>.\<close>

definition routeLine ::
    "builtins \<Rightarrow> processedRoute option \<Rightarrow> processedRoute \<Rightarrow> nat \<Rightarrow> variant
      \<Rightarrow> jsError + polyline option" where
  "routeLine B selectedRoute route idx v =
     (case flowCoordinates v of
        None \<Rightarrow> Inr None
      | Some cs \<Rightarrow>
          if length cs = 0 then Inr None
          else
            (case mapE coordPair (filter flowCoordOk cs) of
               Inl e \<Rightarrow> Inl e
             | Inr coordinates \<Rightarrow>
                 if length coordinates = 0 then Inr None
                 else Inr (Some (polylineElement B selectedRoute route idx coordinates))))"

definition routeLines ::
    "builtins \<Rightarrow> processedRoute option \<Rightarrow> processedRoute
      \<Rightarrow> jsError + polyline option list option" where
  "routeLines B selectedRoute route =
     (case routes route of
        None \<Rightarrow> Inr None
      | Some vs \<Rightarrow>
          (case mapE (\<lambda>(idx, v). routeLine B selectedRoute route idx v) (enumerate 0 vs) of
             Inl e \<Rightarrow> Inl e
           | Inr ls \<Rightarrow> Inr (Some ls)))"

text \<open>A \<^verbatim>\<open><Marker>\<close> with its icon and popup, lines 170-222. \<open>pulse\<close> is the
  animation of lines 163-168 and 176; the three badges are the paragraphs of lines
  203-217.\<close>

record marker =
  markerKey :: string
  position :: "jsnum \<times> jsnum"
  markerSize :: nat
  bgColor :: string
  pulse :: bool
  iconAnchor :: "rat \<times> rat"
  popName :: "string option"
  popDistance :: string
  startBadge :: bool
  endBadge :: bool
  hubBadge :: bool

text \<open>Line 156, \<^verbatim>\<open>stop.stop?.isTransportHub\<close>, as it is tested: a missing location or
  a missing flag is falsy.\<close>

definition isHubStop :: "routeStop \<Rightarrow> bool" where
  "isHubStop s = (case stop s of None \<Rightarrow> False | Some l \<Rightarrow> isTransportHub l = Some True)"

text \<open>Lines 150-223, the callback of \<^verbatim>\<open>route.stops?.map\<close>. \<^verbatim>\<open>(route.stops?.length || 0) - 1\<close>
  is an integer, \<open>-1\<close> for no stops.\<close>

definition stopMarker :: "builtins \<Rightarrow> processedRoute \<Rightarrow> nat \<Rightarrow> routeStop \<Rightarrow> marker option" where
  "stopMarker B route stopIdx s =
     (let la = stopLat B s; lo = stopLon B s in
      if stopCoordRejected la lo then None
      else
        (let isHub = isHubStop s;
             isFirst = (stopIdx = 0);
             isLast = (int stopIdx =
                        int (case stops route of None \<Rightarrow> 0 | Some ss \<Rightarrow> length ss) - 1);
             msize = (if isHub then 24 else if isFirst \<or> isLast then 20 else 16);
             bg = (if isHub then ''#ef4444'' else if isFirst then ''#10b981''
                   else if isLast then ''#f59e0b'' else ''#3b82f6'')
         in Some
           \<lparr>markerKey = stop_id s,
            position = (la, lo),
            markerSize = msize,
            bgColor = bg,
            pulse = (isHub \<or> isFirst \<or> isLast),
            iconAnchor = (of_nat msize / 2, of_nat msize / 2),
            popName = (case stop s of None \<Rightarrow> None | Some l \<Rightarrow> Some (name l)),
            popDistance = toFixed1 B (totalDistance s),
            startBadge = isFirst,
            endBadge = isLast,
            hubBadge = isHub\<rparr>))"

text \<open>Line 150: \<^verbatim>\<open>selectedRoute && route.stops?.map(...)\<close>; \<open>None\<close> is the \<^verbatim>\<open>null\<close>
  or \<^verbatim>\<open>undefined\<close> that renders nothing.\<close>

definition stopMarkers ::
    "builtins \<Rightarrow> processedRoute option \<Rightarrow> processedRoute \<Rightarrow> marker option list option" where
  "stopMarkers B selectedRoute route =
     (case selectedRoute of
        None \<Rightarrow> None
      | Some _ \<Rightarrow>
          (case stops route of
             None \<Rightarrow> None
           | Some ss \<Rightarrow> Some (map (\<lambda>(stopIdx, s). stopMarker B route stopIdx s) (enumerate 0 ss))))"

text \<open>Lines 225-230, the \<^verbatim>\<open><div key={route.id}>\<close> of one route.\<close>

record routeGroup =
  groupKey :: string
  groupLines :: "polyline option list option"
  groupMarkers :: "marker option list option"

definition routeOverlay ::
    "builtins \<Rightarrow> processedRoute option \<Rightarrow> processedRoute \<Rightarrow> jsError + routeGroup" where
  "routeOverlay B selectedRoute route =
     (case routeLines B selectedRoute route of
        Inl e \<Rightarrow> Inl e
      | Inr ls \<Rightarrow>
          Inr \<lparr>groupKey = route_id route, groupLines = ls,
               groupMarkers = stopMarkers B selectedRoute route\<rparr>)"

text \<open>Lines 106-231: \<^verbatim>\<open>displayRoutes.map(...)\<close>.\<close>

definition overlayBuilder ::
    "builtins \<Rightarrow> processedRoute option \<Rightarrow> processedRoute list \<Rightarrow> jsError + routeGroup list" where
  "overlayBuilder B selectedRoute rs = mapE (routeOverlay B selectedRoute) rs"

text \<open>The overlays that are drawn: the polylines and the markers that are not null,
  in the order of the routes, the paths of a route before its markers.\<close>

definition drawnLines :: "routeGroup \<Rightarrow> polyline list" where
  "drawnLines g = (case groupLines g of None \<Rightarrow> [] | Some ls \<Rightarrow> List.map_filter (\<lambda>l. l) ls)"

definition drawnMarkers :: "routeGroup \<Rightarrow> marker list" where
  "drawnMarkers g = (case groupMarkers g of None \<Rightarrow> [] | Some ms \<Rightarrow> List.map_filter (\<lambda>m. m) ms)"

section \<open>Records with missing values\<close>

text \<open>
  The definitions above take a record as its TypeScript type describes it. At run time a
  record of the transit data may lack what the type promises: an entry of an array may
  be null, and \<^verbatim>\<open>avgSpeed\<close> or \<^verbatim>\<open>totalDistance\<close> may be missing. This section is the
  same source on such records, with an error branch at every read that the source makes
  without a guard. \<open>None\<close> is \<^verbatim>\<open>null\<close> or \<^verbatim>\<open>undefined\<close>. Fields that are only rendered
  as text stay strings: a missing text renders nothing and throws nothing. A coordinate
  without \<^verbatim>\<open>lat\<close> or \<^verbatim>\<open>lon\<close> fails the test of line 44 like one with NaN, which
  stands for it.
\<close>

record rawStop =
  rawStopId :: string
  rawStopLocation :: "stopLocation option"
  rawTotalDistance :: "jsnum option"

record rawRoute =
  rawRouteId :: string
  rawNumber :: string
  rawFirstPoint :: string
  rawLastPoint :: string
  rawAvgSpeed :: "jsnum option"
  rawRoutLength :: string
  rawStopCount :: string
  rawCarrier :: string
  rawStops :: "rawStop option list option"
  rawRoutes :: "variant option list option"

text \<open>Sequencing: a throw ends the computation.\<close>

definition bindE :: "jsError + 'a \<Rightarrow> ('a \<Rightarrow> jsError + 'b) \<Rightarrow> jsError + 'b" where
  "bindE m f = (case m of Inl e \<Rightarrow> Inl e | Inr x \<Rightarrow> f x)"

text \<open>\<^verbatim>\<open>forEach\<close> with a callback that pushes onto one array.\<close>

definition concatE :: "('a \<Rightarrow> jsError + 'b list) \<Rightarrow> 'a list \<Rightarrow> jsError + 'b list" where
  "concatE f xs = bindE (mapE f xs) (\<lambda>ys. Inr (concat ys))"

text \<open>\<^verbatim>\<open>some\<close>: stops at the first element for which the callback is truthy.\<close>

fun someE :: "('a \<Rightarrow> jsError + bool) \<Rightarrow> 'a list \<Rightarrow> jsError + bool" where
  "someE p [] = Inr False"
| "someE p (x # xs) =
     (case p x of Inl e \<Rightarrow> Inl e | Inr b \<Rightarrow> if b then Inr True else someE p xs)"

text \<open>\<^verbatim>\<open>filter\<close>: the callback is called on every element.\<close>

fun filterE :: "('a \<Rightarrow> jsError + bool) \<Rightarrow> 'a list \<Rightarrow> jsError + 'a list" where
  "filterE p [] = Inr []"
| "filterE p (x # xs) =
     (case p x of
        Inl e \<Rightarrow> Inl e
      | Inr b \<Rightarrow>
          (case filterE p xs of Inl e \<Rightarrow> Inl e | Inr ys \<Rightarrow> Inr (if b then x # ys else ys)))"

definition rawStopLat :: "builtins \<Rightarrow> rawStop \<Rightarrow> jsnum" where
  "rawStopLat B s =
     parseFloat B (orZero (case rawStopLocation s of None \<Rightarrow> None | Some l \<Rightarrow> latitude l))"

definition rawStopLon :: "builtins \<Rightarrow> rawStop \<Rightarrow> jsnum" where
  "rawStopLon B s =
     parseFloat B (orZero (case rawStopLocation s of None \<Rightarrow> None | Some l \<Rightarrow> longitude l))"

text \<open>Lines 33-39, the callback on one stop: \<^verbatim>\<open>stop.stop\<close> of line 34 throws on a
  null stop.\<close>

fun rawStopPoint :: "builtins \<Rightarrow> rawStop option \<Rightarrow> jsError + (jsnum \<times> jsnum) list" where
  "rawStopPoint B None = Inl TypeError"
| "rawStopPoint B (Some s) =
     Inr (if stopCoordOk (rawStopLat B s) (rawStopLon B s)
          then [(rawStopLat B s, rawStopLon B s)] else [])"

text \<open>Lines 42-48, the callback on one variant: \<^verbatim>\<open>variant.flowCoordinates\<close> of line 43
  throws on a null variant.\<close>

fun rawVariantPoints :: "variant option \<Rightarrow> jsError + (jsnum \<times> jsnum) list" where
  "rawVariantPoints None = Inl TypeError"
| "rawVariantPoints (Some v) = Inr (variantPoints v)"

text \<open>Lines 32-49, the callback on one route: \<^verbatim>\<open>route.stops\<close> of line 33 throws on a
  null route.\<close>

fun rawRoutePoints :: "builtins \<Rightarrow> rawRoute option \<Rightarrow> jsError + (jsnum \<times> jsnum) list" where
  "rawRoutePoints B None = Inl TypeError"
| "rawRoutePoints B (Some route) =
     bindE (case rawStops route of None \<Rightarrow> Inr [] | Some ss \<Rightarrow> concatE (rawStopPoint B) ss)
       (\<lambda>a. bindE
          (case rawRoutes route of None \<Rightarrow> Inr [] | Some vs \<Rightarrow> concatE rawVariantPoints vs)
          (\<lambda>b. Inr (a @ b)))"

definition rawBounds :: "builtins \<Rightarrow> rawRoute option list \<Rightarrow> jsError + (jsnum \<times> jsnum) list" where
  "rawBounds B rs = concatE (rawRoutePoints B) rs"

text \<open>Lines 29-54.\<close>

definition rawMapUpdaterEffect ::
    "builtins \<Rightarrow> rawRoute option list \<Rightarrow> jsError + mapCommand list" where
  "rawMapUpdaterEffect B rs =
     (if length rs > 0 then
        bindE (rawBounds B rs)
          (\<lambda>b. Inr (if length b > 0 then [FitBounds (latLngBounds b) (50, 50)] else []))
      else Inr [])"

text \<open>Lines 81-87: \<^verbatim>\<open>variant.flowCoordinates\<close> of line 82 throws on a null variant,
  \<^verbatim>\<open>route.routes\<close> of line 81 on a null route.\<close>

fun rawVariantHasValid :: "variant option \<Rightarrow> jsError + bool" where
  "rawVariantHasValid None = Inl TypeError"
| "rawVariantHasValid (Some v) = Inr (variantHasValid v)"

fun rawHasValidFlow :: "rawRoute option \<Rightarrow> jsError + bool" where
  "rawHasValidFlow None = Inl TypeError"
| "rawHasValidFlow (Some route) =
     (case rawRoutes route of None \<Rightarrow> Inr False | Some vs \<Rightarrow> someE rawVariantHasValid vs)"

text \<open>Lines 76-89.\<close>

definition rawDisplayRoutes ::
    "rawRoute option list \<Rightarrow> rawRoute option \<Rightarrow> jsError + rawRoute option list" where
  "rawDisplayRoutes rs selectedRoute =
     (case selectedRoute of
        Some r \<Rightarrow> Inr [Some r]
      | None \<Rightarrow> bindE (filterE rawHasValidFlow rs) (\<lambda>xs. Inr (take 30 xs)))"

record rawPolyline =
  rawLineKey :: "string \<times> nat"
  rawPositions :: "(jsnum \<times> jsnum) list"
  rawColor :: string
  rawWeight :: nat
  rawOpacity :: rat
  rawClicked :: rawRoute
  rawPopup :: routePopup

text \<open>Lines 118-146, for a route whose \<^verbatim>\<open>avgSpeed\<close> is the number \<open>speed\<close>.\<close>

definition rawPolylineElement ::
    "builtins \<Rightarrow> rawRoute option \<Rightarrow> rawRoute \<Rightarrow> nat \<Rightarrow> (jsnum \<times> jsnum) list \<Rightarrow> jsnum
      \<Rightarrow> rawPolyline" where
  "rawPolylineElement B selectedRoute route idx coordinates speed =
     \<lparr>rawLineKey = (rawRouteId route, idx),
      rawPositions = coordinates,
      rawColor = (if selectedRoute \<noteq> None then ''#3b82f6'' else getColorBySpeed speed),
      rawWeight = (if selectedRoute \<noteq> None then 5 else 3),
      rawOpacity = (if selectedRoute \<noteq> None then 0.9 else 0.6),
      rawClicked = route,
      rawPopup =
        \<lparr>popNumber = rawNumber route,
         popFirstPoint = rawFirstPoint route,
         popLastPoint = rawLastPoint route,
         popSpeed = toFixed1 B speed,
         popLength = rawRoutLength route,
         popStops = rawStopCount route,
         popCarrier = rawCarrier route\<rparr>\<rparr>"

text \<open>
  Lines 108-147, the callback on one variant. \<^verbatim>\<open>variant.flowCoordinates\<close> of line 109
  throws on a null variant. For a variant that has coordinates after the filter, line
  118 passes \<^verbatim>\<open>route.avgSpeed\<close> to \<^verbatim>\<open>getColorBySpeed\<close>, which throws nothing, and
  line 138 calls \<^verbatim>\<open>route.avgSpeed.toFixed(1)\<close>, which throws when the speed is
  missing.
\<close>

fun rawRouteLine ::
    "builtins \<Rightarrow> rawRoute option \<Rightarrow> rawRoute \<Rightarrow> nat \<Rightarrow> variant option
      \<Rightarrow> jsError + rawPolyline option" where
  "rawRouteLine B selectedRoute route idx None = Inl TypeError"
| "rawRouteLine B selectedRoute route idx (Some v) =
     (case flowCoordinates v of
        None \<Rightarrow> Inr None
      | Some cs \<Rightarrow>
          if length cs = 0 then Inr None
          else
            (case mapE coordPair (filter flowCoordOk cs) of
               Inl e \<Rightarrow> Inl e
             | Inr coordinates \<Rightarrow>
                 if length coordinates = 0 then Inr None
                 else
                   (case rawAvgSpeed route of
                      None \<Rightarrow> Inl TypeError
                    | Some speed \<Rightarrow>
                        Inr (Some (rawPolylineElement B selectedRoute route idx
                                     coordinates speed)))))"

definition rawRouteLines ::
    "builtins \<Rightarrow> rawRoute option \<Rightarrow> rawRoute \<Rightarrow> jsError + rawPolyline option list option" where
  "rawRouteLines B selectedRoute route =
     (case rawRoutes route of
        None \<Rightarrow> Inr None
      | Some vs \<Rightarrow>
          bindE (mapE (\<lambda>(idx, v). rawRouteLine B selectedRoute route idx v) (enumerate 0 vs))
            (\<lambda>ls. Inr (Some ls)))"

text \<open>
  Lines 150-223, the callback on one stop. \<^verbatim>\<open>stop.stop\<close> of line 151 throws on a null
  stop. For a stop whose location passes the test of line 154, line 201 calls
  \<^verbatim>\<open>stop.totalDistance.toFixed(1)\<close>, which throws when the distance is missing.
\<close>

fun rawStopMarker ::
    "builtins \<Rightarrow> rawRoute \<Rightarrow> nat \<Rightarrow> rawStop option \<Rightarrow> jsError + marker option" where
  "rawStopMarker B route stopIdx None = Inl TypeError"
| "rawStopMarker B route stopIdx (Some s) =
     (let la = rawStopLat B s; lo = rawStopLon B s in
      if stopCoordRejected la lo then Inr None
      else
        (let isHub = (case rawStopLocation s of
                        None \<Rightarrow> False
                      | Some l \<Rightarrow> isTransportHub l = Some True);
             isFirst = (stopIdx = 0);
             isLast = (int stopIdx =
                        int (case rawStops route of None \<Rightarrow> 0 | Some ss \<Rightarrow> length ss) - 1);
             msize = (if isHub then 24 else if isFirst \<or> isLast then 20 else 16);
             bg = (if isHub then ''#ef4444'' else if isFirst then ''#10b981''
                   else if isLast then ''#f59e0b'' else ''#3b82f6'')
         in case rawTotalDistance s of
              None \<Rightarrow> Inl TypeError
            | Some distance \<Rightarrow>
                Inr (Some
                  \<lparr>markerKey = rawStopId s,
                   position = (la, lo),
                   markerSize = msize,
                   bgColor = bg,
                   pulse = (isHub \<or> isFirst \<or> isLast),
                   iconAnchor = (of_nat msize / 2, of_nat msize / 2),
                   popName = (case rawStopLocation s of
                                None \<Rightarrow> None
                              | Some l \<Rightarrow> Some (name l)),
                   popDistance = toFixed1 B distance,
                   startBadge = isFirst,
                   endBadge = isLast,
                   hubBadge = isHub\<rparr>)))"

definition rawStopMarkers ::
    "builtins \<Rightarrow> rawRoute option \<Rightarrow> rawRoute \<Rightarrow> jsError + marker option list option" where
  "rawStopMarkers B selectedRoute route =
     (case selectedRoute of
        None \<Rightarrow> Inr None
      | Some _ \<Rightarrow>
          (case rawStops route of
             None \<Rightarrow> Inr None
           | Some ss \<Rightarrow>
               bindE (mapE (\<lambda>(stopIdx, s). rawStopMarker B route stopIdx s) (enumerate 0 ss))
                 (\<lambda>ms. Inr (Some ms))))"

record rawRouteGroup =
  rawGroupKey :: string
  rawGroupLines :: "rawPolyline option list option"
  rawGroupMarkers :: "marker option list option"

text \<open>Lines 106-231, the callback on one route: the paths are built before the markers;
  \<^verbatim>\<open>route.routes\<close> of line 108 throws on a null route.\<close>

fun rawRouteOverlay ::
    "builtins \<Rightarrow> rawRoute option \<Rightarrow> rawRoute option \<Rightarrow> jsError + rawRouteGroup" where
  "rawRouteOverlay B selectedRoute None = Inl TypeError"
| "rawRouteOverlay B selectedRoute (Some route) =
     bindE (rawRouteLines B selectedRoute route)
       (\<lambda>ls. bindE (rawStopMarkers B selectedRoute route)
          (\<lambda>ms. Inr \<lparr>rawGroupKey = rawRouteId route, rawGroupLines = ls,
                     rawGroupMarkers = ms\<rparr>))"

definition rawOverlayBuilder ::
    "builtins \<Rightarrow> rawRoute option \<Rightarrow> rawRoute option list \<Rightarrow> jsError + rawRouteGroup list" where
  "rawOverlayBuilder B selectedRoute rs = mapE (rawRouteOverlay B selectedRoute) rs"

text \<open>A mounted render and the effect after it: the active routes, their overlays and
  the calls on the map.\<close>

definition rawRender ::
    "builtins \<Rightarrow> rawRoute option list \<Rightarrow> rawRoute option
      \<Rightarrow> jsError + rawRoute option list \<times> rawRouteGroup list \<times> mapCommand list" where
  "rawRender B rs selectedRoute =
     bindE (rawDisplayRoutes rs selectedRoute)
       (\<lambda>active. bindE (rawOverlayBuilder B selectedRoute active)
          (\<lambda>gs. bindE (rawMapUpdaterEffect B active)
             (\<lambda>commands. Inr (active, gs, commands))))"

definition rawDrawnLines :: "rawRouteGroup \<Rightarrow> rawPolyline list" where
  "rawDrawnLines g =
     (case rawGroupLines g of None \<Rightarrow> [] | Some ls \<Rightarrow> List.map_filter (\<lambda>l. l) ls)"

definition rawDrawnMarkers :: "rawRouteGroup \<Rightarrow> marker list" where
  "rawDrawnMarkers g =
     (case rawGroupMarkers g of None \<Rightarrow> [] | Some ms \<Rightarrow> List.map_filter (\<lambda>m. m) ms)"

text \<open>The records the TypeScript type describes: every entry is an object, the speed of
  a route and the distance of a stop are numbers.\<close>

fun wellFormedStop :: "rawStop option \<Rightarrow> bool" where
  "wellFormedStop None = False"
| "wellFormedStop (Some s) = (rawTotalDistance s \<noteq> None)"

fun wellFormedRoute :: "rawRoute option \<Rightarrow> bool" where
  "wellFormedRoute None = False"
| "wellFormedRoute (Some route) =
     (rawAvgSpeed route \<noteq> None \<and>
      (case rawStops route of None \<Rightarrow> True | Some ss \<Rightarrow> list_all wellFormedStop ss) \<and>
      (case rawRoutes route of None \<Rightarrow> True | Some vs \<Rightarrow> list_all (\<lambda>v. v \<noteq> None) vs))"

text \<open>The stop and variant entries of a record, none when the field is missing.\<close>

definition rawStopsOf :: "rawRoute \<Rightarrow> rawStop option list" where
  "rawStopsOf route = (case rawStops route of None \<Rightarrow> [] | Some ss \<Rightarrow> ss)"

definition rawVariantsOf :: "rawRoute \<Rightarrow> variant option list" where
  "rawVariantsOf route = (case rawRoutes route of None \<Rightarrow> [] | Some vs \<Rightarrow> vs)"

text \<open>A record of the TypeScript type as a record of this section.\<close>

definition rawStopOf :: "routeStop \<Rightarrow> rawStop" where
  "rawStopOf s =
     \<lparr>rawStopId = stop_id s, rawStopLocation = stop s,
      rawTotalDistance = Some (totalDistance s)\<rparr>"

definition rawOf :: "processedRoute \<Rightarrow> rawRoute" where
  "rawOf route =
     \<lparr>rawRouteId = route_id route, rawNumber = number route,
      rawFirstPoint = firstPoint route, rawLastPoint = lastPoint route,
      rawAvgSpeed = Some (avgSpeed route), rawRoutLength = routLength route,
      rawStopCount = stopCount route, rawCarrier = carrier route,
      rawStops = map_option (map (\<lambda>s. Some (rawStopOf s))) (stops route),
      rawRoutes = map_option (map Some) (routes route)\<rparr>"

definition rawLineOf :: "polyline \<Rightarrow> rawPolyline" where
  "rawLineOf p =
     \<lparr>rawLineKey = lineKey p, rawPositions = positions p, rawColor = color p,
      rawWeight = weight p, rawOpacity = opacity p, rawClicked = rawOf (clicked p),
      rawPopup = popup p\<rparr>"

definition rawGroupOf :: "routeGroup \<Rightarrow> rawRouteGroup" where
  "rawGroupOf g =
     \<lparr>rawGroupKey = groupKey g,
      rawGroupLines = map_option (map (map_option rawLineOf)) (groupLines g),
      rawGroupMarkers = groupMarkers g\<rparr>"

section \<open>The words of the specification\<close>

text \<open>The stops, the path variants and the flow coordinates of a record, none when the
  field is missing.\<close>

definition stopsOf :: "processedRoute \<Rightarrow> routeStop list" where
  "stopsOf route = (case stops route of None \<Rightarrow> [] | Some ss \<Rightarrow> ss)"

definition variantsOf :: "processedRoute \<Rightarrow> variant list" where
  "variantsOf route = (case routes route of None \<Rightarrow> [] | Some vs \<Rightarrow> vs)"

definition coordsOf :: "variant \<Rightarrow> flowCoord option list" where
  "coordsOf v = (case flowCoordinates v of None \<Rightarrow> [] | Some cs \<Rightarrow> cs)"

text \<open>Specification 3: "A coordinate is valid iff both components parse to finite
  numbers and neither is exactly zero." A null coordinate is not valid.\<close>

definition specValid :: "jsnum \<Rightarrow> jsnum \<Rightarrow> bool" where
  "specValid la lo = (isFinite la \<and> isFinite lo \<and> la \<noteq> Fin 0 \<and> lo \<noteq> Fin 0)"

fun specValidCoord :: "flowCoord option \<Rightarrow> bool" where
  "specValidCoord None = False"
| "specValidCoord (Some c) = specValid (lat c) (lon c)"

text \<open>Specification 4.5: a route that has "at least one path variant containing at
  least one valid flow coordinate".\<close>

definition specHasValidGeometry :: "processedRoute \<Rightarrow> bool" where
  "specHasValidGeometry route =
     (\<exists>v \<in> set (variantsOf route). \<exists>c \<in> set (coordsOf v). specValidCoord c)"

text \<open>The validity of the amended claims: no component is NaN and none is zero, so
  that an infinite component passes. A null coordinate does not pass.\<close>

definition accepted :: "jsnum \<Rightarrow> jsnum \<Rightarrow> bool" where
  "accepted la lo = (la \<noteq> NaN \<and> lo \<noteq> NaN \<and> la \<noteq> Fin 0 \<and> lo \<noteq> Fin 0)"

fun acceptedCoord :: "flowCoord option \<Rightarrow> bool" where
  "acceptedCoord None = False"
| "acceptedCoord (Some c) = accepted (lat c) (lon c)"

definition hasAcceptedGeometry :: "processedRoute \<Rightarrow> bool" where
  "hasAcceptedGeometry route =
     (\<exists>v \<in> set (variantsOf route). \<exists>c \<in> set (coordsOf v). acceptedCoord c)"

text \<open>A variant entry that is an object and has an accepted coordinate.\<close>

fun entryAccepted :: "variant option \<Rightarrow> bool" where
  "entryAccepted None = False"
| "entryAccepted (Some v) = (\<exists>c \<in> set (coordsOf v). acceptedCoord c)"

text \<open>A route none of whose flow coordinates has an infinite component.\<close>

definition noInfinity :: "jsnum \<Rightarrow> bool" where
  "noInfinity x = (x \<noteq> PInf \<and> x \<noteq> NInf)"

fun finiteCoord :: "flowCoord option \<Rightarrow> bool" where
  "finiteCoord None = True"
| "finiteCoord (Some c) = (noInfinity (lat c) \<and> noInfinity (lon c))"

definition finiteGeometry :: "processedRoute \<Rightarrow> bool" where
  "finiteGeometry route =
     (\<forall>v \<in> set (variantsOf route). \<forall>c \<in> set (coordsOf v). finiteCoord c)"

text \<open>A stop whose location passes the test of line 36.\<close>

definition stopValid :: "builtins \<Rightarrow> routeStop \<Rightarrow> bool" where
  "stopValid B s = stopCoordOk (stopLat B s) (stopLon B s)"

text \<open>What the callback of lines 108-147 returns for the variant at an index, as a
  function of the variant's accepted points.\<close>

definition lineOf ::
    "builtins \<Rightarrow> processedRoute option \<Rightarrow> processedRoute \<Rightarrow> nat \<times> variant
      \<Rightarrow> polyline option" where
  "lineOf B sel route iv =
     (if variantHasValid (snd iv)
      then Some (polylineElement B sel route (fst iv) (variantPoints (snd iv)))
      else None)"

text \<open>The group of one route, lines 225-230, as a function of the route.\<close>

definition groupOf :: "builtins \<Rightarrow> processedRoute option \<Rightarrow> processedRoute \<Rightarrow> routeGroup" where
  "groupOf B sel route =
     \<lparr>groupKey = route_id route,
      groupLines = map_option (\<lambda>vs. map (lineOf B sel route) (enumerate 0 vs)) (routes route),
      groupMarkers = stopMarkers B sel route\<rparr>"




section \<open>Sample inputs\<close>

text \<open>A parse and a print function that agree with \<^verbatim>\<open>parseFloat\<close> and
  \<^verbatim>\<open>toFixed(1)\<close> on the texts and numbers of the samples.\<close>

definition sampleBuiltins :: builtins where
  "sampleBuiltins =
     \<lparr>parseFloat = (\<lambda>s. if s = ''40.40'' then Fin 40.40 else if s = ''49.86'' then Fin 49.86
                        else if s = ''40.41'' then Fin 40.41 else if s = ''49.87'' then Fin 49.87
                        else if s = ''0'' then Fin 0 else if s = ''Infinity'' then PInf
                        else NaN),
      toFixed1 = (\<lambda>x. if x = Fin 36.7 then ''36.7'' else if x = Fin 0 then ''0.0''
                      else if x = Fin 1.5 then ''1.5'' else if x = Fin 3 then ''3.0''
                      else ''?'')\<rparr>"

definition sampleStop :: "string \<Rightarrow> string \<Rightarrow> string \<Rightarrow> bool \<Rightarrow> jsnum \<Rightarrow> routeStop" where
  "sampleStop n la lo hub d =
     \<lparr>stop_id = n,
      stop = Some \<lparr>name = n, latitude = Some la, longitude = Some lo,
                   isTransportHub = Some hub\<rparr>,
      totalDistance = d\<rparr>"

text \<open>The route R1 of specification 8: one variant with the points (40.40, 49.86),
  (0, 0), (40.41, 49.87); here with the stops A, B (a hub) and C.\<close>

definition sampleVariant :: variant where
  "sampleVariant =
     \<lparr>flowCoordinates =
        Some [Some \<lparr>lat = Fin 40.40, lon = Fin 49.86\<rparr>, Some \<lparr>lat = Fin 0, lon = Fin 0\<rparr>,
              Some \<lparr>lat = Fin 40.41, lon = Fin 49.87\<rparr>]\<rparr>"

definition sampleRoute :: processedRoute where
  "sampleRoute =
     \<lparr>route_id = ''1'', number = ''R1'', firstPoint = ''A'', lastPoint = ''C'',
      avgSpeed = Fin 36.7, routLength = ''3'', stopCount = ''3'', carrier = ''BakuBus'',
      stops = Some [sampleStop ''A'' ''40.40'' ''49.86'' False (Fin 0),
                    sampleStop ''B'' ''40.41'' ''49.86'' True (Fin 1.5),
                    sampleStop ''C'' ''40.41'' ''49.87'' False (Fin 3)],
      routes = Some [sampleVariant]\<rparr>"

text \<open>A route whose only variant has no usable coordinate: a null, a zero and a NaN.\<close>

definition emptyRoute :: processedRoute where
  "emptyRoute =
     \<lparr>route_id = ''2'', number = ''R2'', firstPoint = ''D'', lastPoint = ''E'',
      avgSpeed = NaN, routLength = ''0'', stopCount = ''0'', carrier = ''BakuBus'',
      stops = None,
      routes = Some [\<lparr>flowCoordinates =
                 Some [None, Some \<lparr>lat = Fin 0, lon = Fin 49.86\<rparr>,
                       Some \<lparr>lat = NaN, lon = Fin 49.86\<rparr>]\<rparr>]\<rparr>"

text \<open>A route whose only coordinate has an infinite component.\<close>

definition infVariant :: variant where
  "infVariant = \<lparr>flowCoordinates = Some [Some \<lparr>lat = PInf, lon = Fin 1\<rparr>]\<rparr>"

definition infRoute :: processedRoute where
  "infRoute =
     \<lparr>route_id = ''3'', number = ''R3'', firstPoint = ''F'', lastPoint = ''G'',
      avgSpeed = Fin 36.7, routLength = ''1'', stopCount = ''0'', carrier = ''BakuBus'',
      stops = None,
      routes = Some [infVariant]\<rparr>"

text \<open>The route R1 with a missing value: without its speed, with a null variant entry,
  with a first stop that has no distance, with a null stop entry.\<close>

definition noSpeedRoute :: rawRoute where
  "noSpeedRoute = (rawOf sampleRoute)\<lparr>rawAvgSpeed := None\<rparr>"

definition nullVariantRoute :: rawRoute where
  "nullVariantRoute = (rawOf sampleRoute)\<lparr>rawRoutes := Some [None]\<rparr>"

definition noDistanceRoute :: rawRoute where
  "noDistanceRoute =
     (rawOf sampleRoute)\<lparr>rawStops :=
        Some [Some ((rawStopOf (sampleStop ''A'' ''40.40'' ''49.86'' False (Fin 0)))
                     \<lparr>rawTotalDistance := None\<rparr>)]\<rparr>"

definition nullStopRoute :: rawRoute where
  "nullStopRoute = (rawOf sampleRoute)\<lparr>rawStops := Some [None]\<rparr>"

text \<open>A mounted RouteMap before its first mounted render.\<close>

definition mountedState :: routeMapState where
  "mountedState = \<lparr>mounted = True, nextRef = 1, theMap = 0, updaterDeps = None\<rparr>"

text \<open>Fifty routes with the geometry of R1, told apart by their stop counts.\<close>

definition fifty :: "processedRoute list" where
  "fifty = map (\<lambda>i. sampleRoute\<lparr>stopCount := replicate i CHR ''I''\<rparr>) [0..<50]"

text \<open>The role badges, the size and the colour of a marker, side by side.\<close>

definition roleView :: "marker \<Rightarrow> bool \<times> bool \<times> bool \<times> nat \<times> string" where
  "roleView m = (startBadge m, endBadge m, hubBadge m, markerSize m, bgColor m)"

section \<open>What the overlay construction returns\<close>

lemma mapE_total:
  "(\<And>x. x \<in> set xs \<Longrightarrow> f x = Inr (g x)) \<Longrightarrow> mapE f xs = Inr (map g xs)"
  by (induction xs) simp_all

lemma mapE_coordPair_valid:
  "mapE coordPair (filter flowCoordOk cs) = Inr (concat (map flowPoint cs))"
proof (induction cs)
  case Nil
  show ?case by simp
next
  case (Cons c cs)
  show ?case
  proof (cases c)
    case None
    with Cons show ?thesis by simp
  next
    case (Some k)
    with Cons show ?thesis by simp
  qed
qed

lemma flowPoint_empty: "(flowPoint c = []) = (\<not> flowCoordOk c)"
  by (cases c) simp_all

lemma variantPoints_empty: "(variantPoints v = []) = (\<not> variantHasValid v)"
  by (cases "flowCoordinates v")
     (auto simp add: variantPoints_def variantHasValid_def flowPoint_empty list_ex_iff)

lemma routeLine_eq:
  "routeLine B sel route idx v = Inr (lineOf B sel route (idx, v))"
proof (cases "flowCoordinates v")
  case None
  then show ?thesis by (simp add: routeLine_def variantHasValid_def lineOf_def)
next
  case (Some cs)
  have "variantPoints v = concat (map flowPoint cs)"
    using Some by (simp add: variantPoints_def)
  moreover have "(concat (map flowPoint cs) = []) = (\<not> variantHasValid v)"
    using Some variantPoints_empty [of v] by (simp add: variantPoints_def)
  ultimately show ?thesis
    using Some by (auto simp add: routeLine_def mapE_coordPair_valid variantHasValid_def lineOf_def)
qed

lemma routeLines_eq:
  "routeLines B sel route =
     Inr (map_option (\<lambda>vs. map (lineOf B sel route) (enumerate 0 vs)) (routes route))"
proof (cases "routes route")
  case None
  then show ?thesis by (simp add: routeLines_def)
next
  case (Some vs)
  have "mapE (\<lambda>(idx, v). routeLine B sel route idx v) (enumerate 0 vs) =
          Inr (map (lineOf B sel route) (enumerate 0 vs))"
    by (rule mapE_total) (auto simp add: routeLine_eq)
  with Some show ?thesis by (simp add: routeLines_def)
qed

lemma routeOverlay_eq:
  "routeOverlay B sel route = Inr (groupOf B sel route)"
  by (simp add: routeOverlay_def routeLines_eq groupOf_def)

lemma overlayBuilder_eq:
  "overlayBuilder B sel rs = Inr (map (groupOf B sel) rs)"
  unfolding overlayBuilder_def
  by (rule mapE_total) (simp add: routeOverlay_eq)

lemma length_drawn_lineOf:
  "length (List.map_filter (\<lambda>l. l) (map (lineOf B sel route) (enumerate n vs)))
     = length (filter variantHasValid vs)"
  by (induction vs arbitrary: n) (simp_all add: lineOf_def)

lemma drawnLines_count:
  "length (drawnLines (groupOf B sel route)) = length (filter variantHasValid (variantsOf route))"
  by (cases "routes route")
     (simp_all add: drawnLines_def groupOf_def variantsOf_def length_drawn_lineOf)

lemma drawnMarkers_none: "drawnMarkers (groupOf B None route) = []"
  by (simp add: drawnMarkers_def groupOf_def stopMarkers_def)

lemma stopMarker_None: "(stopMarker B route i s = None) = (\<not> stopValid B s)"
  by (auto simp add: stopMarker_def stopValid_def Let_def stopCoordOk_def stopCoordRejected_def)

lemma length_map_filter_markers:
  "length (List.map_filter (\<lambda>m. m) (map (\<lambda>(i, s). stopMarker B route i s) (enumerate n ss)))
     = length (filter (stopValid B) ss)"
proof (induction ss arbitrary: n)
  case Nil
  show ?case by simp
next
  case (Cons s ss)
  show ?case
  proof (cases "stopMarker B route n s")
    case None
    with Cons stopMarker_None [of B route n s] show ?thesis
      by simp
  next
    case (Some m)
    with Cons stopMarker_None [of B route n s] show ?thesis
      by simp
  qed
qed

lemma drawnMarkers_count:
  "length (drawnMarkers (groupOf B (Some r) route)) = length (filter (stopValid B) (stopsOf route))"
  by (cases "stops route")
     (simp_all add: drawnMarkers_def groupOf_def stopMarkers_def stopsOf_def
        length_map_filter_markers)

section \<open>The performance classifier\<close>

text \<open>
  C6. For every finite average speed the colour returned is the Fast colour iff the
  speed is at least 37, the Medium colour iff it is at least 36.5 and below 37, and the
  Slow colour iff it is below 36.5 (zero and negative speeds included); 37.0 is Fast,
  36.5 is Medium, 36.4999 is Slow and 0 is Slow.
\<close>

theorem classifier_thresholds:
  "(getColorBySpeed (Fin s) = tierColor Fast) = (37 \<le> s) \<and>
   (getColorBySpeed (Fin s) = tierColor Medium) = (36.5 \<le> s \<and> s < 37) \<and>
   (getColorBySpeed (Fin s) = tierColor Slow) = (s < 36.5) \<and>
   getColorBySpeed (Fin 37.0) = tierColor Fast \<and>
   getColorBySpeed (Fin 36.5) = tierColor Medium \<and>
   getColorBySpeed (Fin 36.4999) = tierColor Slow \<and>
   getColorBySpeed (Fin 0) = tierColor Slow"
  by (auto simp add: getColorBySpeed_def)

text \<open>
  C10. For the average speed NaN the function still returns a colour, the Slow one:
  both comparisons are false.
\<close>

theorem classifier_nan:
  "\<not> jsGe NaN (Fin 37) \<and> \<not> jsGe NaN (Fin 36.5) \<and> getColorBySpeed NaN = tierColor Slow"
  by (simp add: getColorBySpeed_def)

section \<open>The coordinate tests\<close>

text \<open>
  C1, as stated, fails: a pair with an infinite component is accepted by the test of the
  bounds accumulation, kept by the test of the stop markers and accepted by the test of
  the flow coordinates, although the component is not a finite number.
\<close>

theorem coordinate_validation_counterexample:
  "stopCoordOk PInf (Fin 1) \<and> \<not> stopCoordRejected PInf (Fin 1) \<and>
   flowCoordOk (Some \<lparr>lat = PInf, lon = Fin 1\<rparr>) \<and> \<not> isFinite PInf"
  by (simp add: stopCoordOk_def stopCoordRejected_def truthy_def isNaN_def strictEq_def)

text \<open>
  C1, amended. A pair is accepted by the test of the bounds accumulation iff neither
  component is NaN (a text that does not parse gives NaN) and neither is zero; the test
  of the stop markers drops a marker exactly when that test fails, and the test on a flow
  coordinate is the same test on the two numbers of a coordinate that is not null. So a
  pair of finite numbers is accepted iff neither is zero, and an infinite component is
  accepted as well.
\<close>

theorem coordinate_validation:
  "stopCoordOk la lo = (la \<noteq> NaN \<and> lo \<noteq> NaN \<and> la \<noteq> Fin 0 \<and> lo \<noteq> Fin 0) \<and>
   stopCoordRejected la lo = (\<not> stopCoordOk la lo) \<and>
   flowCoordOk (Some c) = stopCoordOk (lat c) (lon c) \<and>
   \<not> flowCoordOk None \<and>
   (stopMarker B route i s \<noteq> None) = stopCoordOk (stopLat B s) (stopLon B s) \<and>
   (isFinite la \<and> isFinite lo \<longrightarrow> stopCoordOk la lo = (la \<noteq> Fin 0 \<and> lo \<noteq> Fin 0))"
  by (auto simp add: stopCoordOk_def stopCoordRejected_def truthy_def isNaN_def strictEq_def
      stopMarker_def Let_def)

theorem coordinate_validation_witness:
  "isFinite (Fin 40.40) \<and> isFinite (Fin 49.86) \<and> stopCoordOk (Fin 40.40) (Fin 49.86) \<and>
   \<not> stopCoordRejected (Fin 40.40) (Fin 49.86) \<and>
   flowCoordOk (Some \<lparr>lat = Fin 40.40, lon = Fin 49.86\<rparr>) \<and>
   stopMarker sampleBuiltins sampleRoute 0 (sampleStop ''A'' ''40.40'' ''49.86'' False (Fin 0)) \<noteq> None"
  using coordinate_validation [of "Fin 40.40" "Fin 49.86" "\<lparr>lat = Fin 40.40, lon = Fin 49.86\<rparr>"
      sampleBuiltins sampleRoute 0 "sampleStop ''A'' ''40.40'' ''49.86'' False (Fin 0)"]
  by (simp add: stopLat_def stopLon_def sampleStop_def sampleBuiltins_def orZero_def)

section \<open>The routes that are rendered\<close>

lemma subseq_take_filter: "subseq (take n (filter P xs)) xs"
proof -
  have "subseq (take n (filter P xs)) (filter P xs)"
    by (simp add: sublist_imp_subseq)
  then show ?thesis
    using subseq_filter_left subseq_order.trans by blast
qed

text \<open>
  C2, as stated, fails: the selected route is rendered whether or not it is one of the
  supplied routes. With the route R1 selected and a list that holds another route only,
  the rendered routes are not a subset of the supplied ones.
\<close>

theorem rendered_subset_counterexample:
  "\<not> set (displayRoutes [emptyRoute] (Some sampleRoute)) \<subseteq> set [emptyRoute]"
  by (simp add: displayRoutes_def sampleRoute_def emptyRoute_def)

text \<open>
  C2, amended. With no route selected the rendered routes are a subset of the supplied
  routes and at most 30. With a route selected the rendered list is that route alone,
  of size one, and it is a subset of the supplied routes exactly when the selected route
  is one of them.
\<close>

theorem rendered_routes_bounded:
  "(sel = None \<longrightarrow>
      set (displayRoutes rs sel) \<subseteq> set rs \<and> length (displayRoutes rs sel) \<le> 30) \<and>
   (\<forall>r. sel = Some r \<longrightarrow>
      displayRoutes rs sel = [r] \<and> length (displayRoutes rs sel) = 1 \<and>
      (set (displayRoutes rs sel) \<subseteq> set rs) = (r \<in> set rs))"
proof -
  have "set (take 30 (filter hasValidFlow rs)) \<subseteq> set rs"
    using set_take_subset [of 30 "filter hasValidFlow rs"] by auto
  then show ?thesis
    by (simp add: displayRoutes_def)
qed

theorem rendered_routes_bounded_witness:
  "set (displayRoutes [emptyRoute, sampleRoute] None) \<subseteq> set [emptyRoute, sampleRoute] \<and>
   displayRoutes [emptyRoute, sampleRoute] None = [sampleRoute] \<and>
   displayRoutes [emptyRoute] (Some sampleRoute) = [sampleRoute] \<and>
   length (displayRoutes [emptyRoute] (Some sampleRoute)) = 1 \<and>
   sampleRoute \<notin> set [emptyRoute]"
  using rendered_routes_bounded [of None "[emptyRoute, sampleRoute]"]
    rendered_routes_bounded [of "Some sampleRoute" "[emptyRoute]"]
  by (simp add: displayRoutes_def hasValidFlow_def variantHasValid_def sampleRoute_def
      emptyRoute_def sampleVariant_def truthy_def isNaN_def)

section \<open>Markers per route\<close>

lemma drawnMarkers_le: "length (drawnMarkers (groupOf B sel route)) \<le> length (stopsOf route)"
proof (cases sel)
  case None
  then show ?thesis by (simp add: drawnMarkers_none)
next
  case (Some r)
  then show ?thesis by (simp add: drawnMarkers_count)
qed

section \<open>Stop roles\<close>

lemma stopMarkers_nth:
  "stops route = Some ss \<Longrightarrow> i < length ss \<Longrightarrow>
   stopMarkers B (Some r) route = Some ms \<Longrightarrow>
   length ms = length ss \<and> ms ! i = stopMarker B route i (ss ! i)"
  by (auto simp add: stopMarkers_def nth_enumerate_eq)

lemma isLast_nat: "i < n \<Longrightarrow> (int i = int n - 1) = (i = n - 1)"
  by auto

lemma stopMarker_roles:
  "stops route = Some ss \<Longrightarrow> i < length ss \<Longrightarrow> stopMarker B route i (ss ! i) = Some m \<Longrightarrow>
   startBadge m = (i = 0) \<and> endBadge m = (i = length ss - 1) \<and> hubBadge m = isHubStop (ss ! i)"
  by (auto simp add: stopMarker_def Let_def isLast_nat split: if_splits)

lemma stopMarker_style:
  "stopMarker B route i s = Some m \<Longrightarrow>
   markerSize m = (if hubBadge m then 24 else if startBadge m \<or> endBadge m then 20 else 16) \<and>
   bgColor m = (if hubBadge m then ''#ef4444'' else if startBadge m then ''#10b981''
                else if endBadge m then ''#f59e0b'' else ''#3b82f6'') \<and>
   pulse m = (hubBadge m \<or> startBadge m \<or> endBadge m)"
  by (auto simp add: stopMarker_def Let_def split: if_splits)

text \<open>
  C8. With a route selected, the markers of a route are built stop by stop, the marker at
  index i from the stop at index i (none when the stop's location fails the test). On a
  marker the Start badge is set iff the index is 0, the End badge iff the index is the
  last one, the Hub badge iff the stop's location carries the hub flag; the badges are
  independent, and the only stop of a one-stop route has both Start and End. Size and
  colour follow the precedence Hub, else Start, else End, else Regular. For the stops
  A, B, C with B a hub: Start for A, Hub for B, End for C.
\<close>

theorem stop_roles:
  assumes "stops route = Some ss" and "i < length ss"
    and "stopMarkers B (Some r) route = Some ms"
  shows "length ms = length ss \<and>
     (ms ! i = None) = (\<not> stopValid B (ss ! i)) \<and>
     (\<forall>m. ms ! i = Some m \<longrightarrow>
        startBadge m = (i = 0) \<and> endBadge m = (i = length ss - 1) \<and>
        hubBadge m = isHubStop (ss ! i) \<and>
        (length ss = 1 \<longrightarrow> startBadge m \<and> endBadge m) \<and>
        markerSize m = (if hubBadge m then 24 else if startBadge m \<or> endBadge m then 20 else 16) \<and>
        bgColor m = (if hubBadge m then ''#ef4444'' else if startBadge m then ''#10b981''
                     else if endBadge m then ''#f59e0b'' else ''#3b82f6''))"
proof -
  have n: "length ms = length ss" and e: "ms ! i = stopMarker B route i (ss ! i)"
    using stopMarkers_nth [OF assms] by simp_all
  have v: "(ms ! i = None) = (\<not> stopValid B (ss ! i))"
    by (simp add: e stopMarker_None)
  have "startBadge m = (i = 0) \<and> endBadge m = (i = length ss - 1) \<and>
        hubBadge m = isHubStop (ss ! i) \<and>
        (length ss = 1 \<longrightarrow> startBadge m \<and> endBadge m) \<and>
        markerSize m = (if hubBadge m then 24 else if startBadge m \<or> endBadge m then 20 else 16) \<and>
        bgColor m = (if hubBadge m then ''#ef4444'' else if startBadge m then ''#10b981''
                     else if endBadge m then ''#f59e0b'' else ''#3b82f6'')"
    if "ms ! i = Some m" for m
  proof -
    have s: "stopMarker B route i (ss ! i) = Some m"
      using that e by simp
    have r: "startBadge m = (i = 0) \<and> endBadge m = (i = length ss - 1) \<and>
        hubBadge m = isHubStop (ss ! i)"
      using stopMarker_roles [OF assms(1) assms(2) s] .
    have "length ss = 1 \<longrightarrow> startBadge m \<and> endBadge m"
      using r assms(2) by auto
    with r stopMarker_style [OF s] show ?thesis by simp
  qed
  with n v show ?thesis by blast
qed

lemma sample_marker_views:
  "map_option (map (map_option roleView)) (stopMarkers sampleBuiltins (Some sampleRoute) sampleRoute)
   = Some [Some (True, False, False, 20, ''#10b981''), Some (False, False, True, 24, ''#ef4444''),
         Some (False, True, False, 20, ''#f59e0b'')]"
  by (simp add: stopMarkers_def stopMarker_def Let_def stopLat_def stopLon_def orZero_def sampleStop_def
      sampleBuiltins_def stopCoordRejected_def truthy_def isNaN_def strictEq_def isHubStop_def
      roleView_def sampleRoute_def)

theorem stop_roles_witness:
  "\<exists>ms. stopMarkers sampleBuiltins (Some sampleRoute) sampleRoute = Some ms \<and> length ms = 3 \<and>
     map (map_option roleView) ms =
       [Some (True, False, False, 20, ''#10b981''), Some (False, False, True, 24, ''#ef4444''),
        Some (False, True, False, 20, ''#f59e0b'')]"
proof -
  obtain ms where ms: "stopMarkers sampleBuiltins (Some sampleRoute) sampleRoute = Some ms"
    by (simp add: stopMarkers_def sampleRoute_def)
  have s: "stops sampleRoute = Some [sampleStop ''A'' ''40.40'' ''49.86'' False (Fin 0),
                    sampleStop ''B'' ''40.41'' ''49.86'' True (Fin 1.5),
                    sampleStop ''C'' ''40.41'' ''49.87'' False (Fin 3)]"
    by (simp add: sampleRoute_def)
  have "length ms = 3"
    using stop_roles [OF s _ ms, of 1] by simp
  moreover have "map (map_option roleView) ms =
       [Some (True, False, False, 20, ''#10b981''), Some (False, False, True, 24, ''#ef4444''),
        Some (False, True, False, 20, ''#f59e0b'')]"
    using sample_marker_views ms by simp
  ultimately show ?thesis using ms by simp
qed

section \<open>The overlays as a function of the active set and the selection\<close>

lemma map_filter_lineOf:
  "List.map_filter (\<lambda>l. l) (map (lineOf B sel route) ivs) =
     map (\<lambda>iv. polylineElement B sel route (fst iv) (variantPoints (snd iv)))
       (filter (\<lambda>iv. variantHasValid (snd iv)) ivs)"
  by (induction ivs) (simp_all add: lineOf_def)

lemma drawnLines_groupOf:
  "drawnLines (groupOf B sel route) =
     map (\<lambda>iv. polylineElement B sel route (fst iv) (variantPoints (snd iv)))
       (filter (\<lambda>iv. variantHasValid (snd iv)) (enumerate 0 (variantsOf route)))"
  by (cases "routes route")
     (simp_all add: drawnLines_def groupOf_def variantsOf_def map_filter_lineOf)

lemma tier_of_speed: "\<exists>t. getColorBySpeed x = tierColor t"
proof (cases "jsGe x (Fin 37)")
  case True
  then have "getColorBySpeed x = tierColor Fast" by (simp add: getColorBySpeed_def)
  then show ?thesis ..
next
  case False
  show ?thesis
  proof (cases "jsGe x (Fin 36.5)")
    case True
    with False have "getColorBySpeed x = tierColor Medium" by (simp add: getColorBySpeed_def)
    then show ?thesis ..
  next
    case f: False
    with False have "getColorBySpeed x = tierColor Slow" by (simp add: getColorBySpeed_def)
    then show ?thesis ..
  qed
qed

lemma line_style:
  "p \<in> set (drawnLines (groupOf B sel route)) \<Longrightarrow>
     clicked p = route \<and>
     color p = (if sel = None then getColorBySpeed (avgSpeed route) else ''#3b82f6'') \<and>
     weight p = (if sel = None then 3 else 5) \<and>
     opacity p = (if sel = None then 0.6 else 0.9) \<and>
     popup p = \<lparr>popNumber = number route, popFirstPoint = firstPoint route,
                 popLastPoint = lastPoint route, popSpeed = toFixed1 B (avgSpeed route),
                 popLength = routLength route, popStops = stopCount route,
                 popCarrier = carrier route\<rparr>"
  by (auto simp add: drawnLines_groupOf polylineElement_def)

text \<open>
  C9. Two runs of the overlay construction on the same active set and selection return
  the same groups, equal in content and number: one group per route in the order of the
  routes; in a group, one path per variant with an accepted coordinate, in the order of
  the variants, with the accepted points in their order as geometry; the colour of a path
  is the fixed highlight colour when a route is selected and otherwise the tier colour
  of the route's average speed; weight, opacity and popup text are fixed by the
  selection and the route. Nothing else enters the result.
\<close>

theorem overlay_builder_deterministic:
  assumes "overlayBuilder B sel rs = Inr gs" and "overlayBuilder B sel rs = Inr gs'"
  shows "gs' = gs \<and> length gs' = length gs \<and> length gs = length rs \<and>
     map groupKey gs = map route_id rs \<and>
     (\<forall>i < length rs.
        drawnLines (gs ! i) =
          map (\<lambda>iv. polylineElement B sel (rs ! i) (fst iv) (variantPoints (snd iv)))
            (filter (\<lambda>iv. variantHasValid (snd iv)) (enumerate 0 (variantsOf (rs ! i)))) \<and>
        groupMarkers (gs ! i) = stopMarkers B sel (rs ! i) \<and>
        (\<exists>t. getColorBySpeed (avgSpeed (rs ! i)) = tierColor t) \<and>
        (\<forall>p \<in> set (drawnLines (gs ! i)).
           clicked p = rs ! i \<and>
           color p = (if sel = None then getColorBySpeed (avgSpeed (rs ! i)) else ''#3b82f6'') \<and>
           weight p = (if sel = None then 3 else 5) \<and>
           opacity p = (if sel = None then 0.6 else 0.9) \<and>
           popup p = \<lparr>popNumber = number (rs ! i), popFirstPoint = firstPoint (rs ! i),
                       popLastPoint = lastPoint (rs ! i),
                       popSpeed = toFixed1 B (avgSpeed (rs ! i)),
                       popLength = routLength (rs ! i), popStops = stopCount (rs ! i),
                       popCarrier = carrier (rs ! i)\<rparr>))"
proof -
  have g: "gs = map (groupOf B sel) rs"
    using assms(1) by (simp add: overlayBuilder_eq)
  have g': "gs' = gs"
    using assms by simp
  have k: "map groupKey gs = map route_id rs"
    by (simp add: g groupOf_def)
  have "drawnLines (gs ! i) =
          map (\<lambda>iv. polylineElement B sel (rs ! i) (fst iv) (variantPoints (snd iv)))
            (filter (\<lambda>iv. variantHasValid (snd iv)) (enumerate 0 (variantsOf (rs ! i)))) \<and>
        groupMarkers (gs ! i) = stopMarkers B sel (rs ! i) \<and>
        (\<exists>t. getColorBySpeed (avgSpeed (rs ! i)) = tierColor t) \<and>
        (\<forall>p \<in> set (drawnLines (gs ! i)).
           clicked p = rs ! i \<and>
           color p = (if sel = None then getColorBySpeed (avgSpeed (rs ! i)) else ''#3b82f6'') \<and>
           weight p = (if sel = None then 3 else 5) \<and>
           opacity p = (if sel = None then 0.6 else 0.9) \<and>
           popup p = \<lparr>popNumber = number (rs ! i), popFirstPoint = firstPoint (rs ! i),
                       popLastPoint = lastPoint (rs ! i),
                       popSpeed = toFixed1 B (avgSpeed (rs ! i)),
                       popLength = routLength (rs ! i), popStops = stopCount (rs ! i),
                       popCarrier = carrier (rs ! i)\<rparr>)"
    if "i < length rs" for i
  proof -
    have e: "gs ! i = groupOf B sel (rs ! i)"
      using that by (simp add: g)
    have m: "groupMarkers (gs ! i) = stopMarkers B sel (rs ! i)"
      by (simp add: e groupOf_def)
    show ?thesis
      unfolding e
      using drawnLines_groupOf [of B sel "rs ! i"] tier_of_speed [of "avgSpeed (rs ! i)"]
        line_style [of _ B sel "rs ! i"] m [unfolded e]
      by blast
  qed
  with g g' k show ?thesis by simp
qed

lemma sample_drawn:
  "drawnLines (groupOf B sel sampleRoute) =
     [polylineElement B sel sampleRoute 0 [(Fin 40.40, Fin 49.86), (Fin 40.41, Fin 49.87)]]"
  by (simp add: drawnLines_groupOf variantsOf_def sampleRoute_def variantHasValid_def
      sampleVariant_def variantPoints_def truthy_def isNaN_def)

theorem overlay_builder_deterministic_witness:
  "\<exists>gs. overlayBuilder sampleBuiltins None [sampleRoute, emptyRoute] = Inr gs \<and>
     length gs = 2 \<and> map groupKey gs = [''1'', ''2''] \<and>
     map (\<lambda>g. map (\<lambda>p. (lineKey p, positions p, color p, weight p, opacity p, popSpeed (popup p)))
                 (drawnLines g)) gs =
       [[((''1'', 0), [(Fin 40.40, Fin 49.86), (Fin 40.41, Fin 49.87)], ''#eab308'', 3, 0.6, ''36.7'')],
        []]"
proof -
  obtain gs where gs: "overlayBuilder sampleBuiltins None [sampleRoute, emptyRoute] = Inr gs"
    by (simp add: overlayBuilder_eq)
  note d = overlay_builder_deterministic [OF gs gs]
  have n: "length gs = 2" and k: "map groupKey gs = [''1'', ''2'']"
    using d by (simp_all add: sampleRoute_def emptyRoute_def)
  have e: "gs = map (groupOf sampleBuiltins None) [sampleRoute, emptyRoute]"
    using gs by (simp add: overlayBuilder_eq)
  have z: "drawnLines (groupOf sampleBuiltins None emptyRoute) = []"
    by (simp add: drawnLines_groupOf variantsOf_def emptyRoute_def variantHasValid_def
        truthy_def isNaN_def)
  have l: "map (\<lambda>g. map (\<lambda>p. (lineKey p, positions p, color p, weight p, opacity p, popSpeed (popup p)))
                 (drawnLines g)) gs =
       [[((''1'', 0), [(Fin 40.40, Fin 49.86), (Fin 40.41, Fin 49.87)], ''#eab308'', 3, 0.6, ''36.7'')],
        []]"
  proof -
    let ?p = "polylineElement sampleBuiltins None sampleRoute 0
        [(Fin 40.40, Fin 49.86), (Fin 40.41, Fin 49.87)]"
    have f: "(lineKey ?p, positions ?p, color ?p, weight ?p, opacity ?p, popSpeed (popup ?p)) =
        ((''1'', 0), [(Fin 40.40, Fin 49.86), (Fin 40.41, Fin 49.87)], ''#eab308'', 3, 0.6, ''36.7'')"
      by (simp add: polylineElement_def sampleRoute_def getColorBySpeed_def sampleBuiltins_def)
    show ?thesis
      unfolding e using f by (simp add: sample_drawn z)
  qed
  show ?thesis
    by (rule exI [of _ gs]) (rule conjI [OF gs conjI [OF n conjI [OF k l]]])
qed

section \<open>The bounding region\<close>


















lemma effect_nonempty:
  "bounds B rs \<noteq> [] \<Longrightarrow> mapUpdaterEffect B rs = [FitBounds (latLngBounds (bounds B rs)) (50, 50)]"
  by (cases rs) (simp_all add: mapUpdaterEffect_def bounds_def)

lemma effect_empty: "bounds B rs = [] \<Longrightarrow> mapUpdaterEffect B rs = []"
  by (simp add: mapUpdaterEffect_def)


lemma sample_bounds:
  "bounds sampleBuiltins [sampleRoute] =
     [(Fin 40.40, Fin 49.86), (Fin 40.41, Fin 49.86), (Fin 40.41, Fin 49.87),
      (Fin 40.40, Fin 49.86), (Fin 40.41, Fin 49.87)]"
  by (simp add: bounds_def stopPoints_def flowPoints_def variantPoints_def sampleRoute_def
      sampleVariant_def sampleStop_def sampleBuiltins_def stopLat_def stopLon_def orZero_def
      stopCoordOk_def truthy_def isNaN_def strictEq_def)

lemma sample_region:
  "latLngBounds [(Fin 40.40, Fin 49.86), (Fin 40.41, Fin 49.86), (Fin 40.41, Fin 49.87),
      (Fin 40.40, Fin 49.86), (Fin 40.41, Fin 49.87)] =
     Some \<lparr>south = Fin 40.40, west = Fin 49.86, north = Fin 40.41, east = Fin 49.87\<rparr>"
  by (simp add: extendRegion_def jsMin_def jsMax_def jsLe_def isNaN_def)


section \<open>The active set\<close>

lemma flowCoordOk_accepted: "flowCoordOk c = acceptedCoord c"
  by (cases c) (auto simp add: accepted_def truthy_def isNaN_def)

lemma specValid_accepted: "specValid la lo \<Longrightarrow> accepted la lo"
  by (cases la; cases lo) (simp_all add: specValid_def accepted_def)

lemma specValidCoord_accepted: "specValidCoord c \<Longrightarrow> acceptedCoord c"
  by (cases c) (simp_all add: specValid_accepted)

lemma accepted_finite: "noInfinity la \<Longrightarrow> noInfinity lo \<Longrightarrow> accepted la lo = specValid la lo"
  by (cases la; cases lo) (simp_all add: specValid_def accepted_def noInfinity_def)

lemma acceptedCoord_finite: "finiteCoord c \<Longrightarrow> acceptedCoord c = specValidCoord c"
  by (cases c) (simp_all add: accepted_finite)

lemma variantHasValid_accepted:
  "variantHasValid v = (\<exists>c \<in> set (coordsOf v). acceptedCoord c)"
  by (cases "flowCoordinates v")
     (auto simp add: variantHasValid_def coordsOf_def list_ex_iff flowCoordOk_accepted)

lemma hasValidFlow_accepted: "hasValidFlow route = hasAcceptedGeometry route"
  by (cases "routes route")
     (simp_all add: hasValidFlow_def hasAcceptedGeometry_def variantsOf_def list_ex_iff
        variantHasValid_accepted)

lemma spec_imp_accepted: "specHasValidGeometry route \<Longrightarrow> hasAcceptedGeometry route"
  unfolding specHasValidGeometry_def hasAcceptedGeometry_def
  using specValidCoord_accepted by blast

lemma accepted_eq_spec:
  "finiteGeometry route \<Longrightarrow> hasAcceptedGeometry route = specHasValidGeometry route"
  unfolding specHasValidGeometry_def hasAcceptedGeometry_def finiteGeometry_def
  using acceptedCoord_finite by blast

lemma stopMarker_position:
  "stopMarker B route i s = Some m \<Longrightarrow> position m = (stopLat B s, stopLon B s)"
  by (auto simp add: stopMarker_def Let_def split: if_splits)

lemma positions_markers:
  "map position (List.map_filter (\<lambda>m. m)
      (map (\<lambda>(i, s). stopMarker B route i s) (enumerate n ss))) =
     map (\<lambda>s. (stopLat B s, stopLon B s)) (filter (stopValid B) ss)"
proof (induction ss arbitrary: n)
  case Nil
  show ?case by simp
next
  case (Cons s ss)
  show ?case
  proof (cases "stopMarker B route n s")
    case None
    with Cons stopMarker_None [of B route n s] show ?thesis by simp
  next
    case (Some m)
    with Cons stopMarker_None [of B route n s] stopMarker_position [OF Some] show ?thesis
      by simp
  qed
qed

lemma drawnMarkers_positions:
  "map position (drawnMarkers (groupOf B (Some r) route)) =
     map (\<lambda>s. (stopLat B s, stopLon B s)) (filter (stopValid B) (stopsOf route))"
  by (cases "stops route")
     (simp_all add: drawnMarkers_def groupOf_def stopMarkers_def stopsOf_def positions_markers)

text \<open>
  C4, as stated, fails: a route whose only flow coordinate is (Infinity, 1) has no valid
  flow coordinate in the specification's sense (both components finite, neither zero),
  yet with no route selected it is in the active set.
\<close>

theorem active_set_counterexample:
  "displayRoutes [infRoute] None = [infRoute] \<and>
   \<not> specHasValidGeometry infRoute \<and>
   take 30 (filter specHasValidGeometry [infRoute]) = []"
proof -
  have n: "\<not> specHasValidGeometry infRoute"
    by (simp add: specHasValidGeometry_def variantsOf_def coordsOf_def infRoute_def
        infVariant_def specValid_def)
  have "hasValidFlow infRoute"
    by (simp add: hasValidFlow_def variantHasValid_def infRoute_def infVariant_def truthy_def
        isNaN_def)
  then have "displayRoutes [infRoute] None = [infRoute]"
    by (simp add: displayRoutes_def)
  with n show ?thesis by simp
qed

text \<open>
  C4, amended. With a route selected the active set is that route alone. Otherwise it is
  the supplied routes that have a path variant with an accepted flow coordinate (not
  null, no NaN and no zero component, an infinite component included), in the supplied
  order, cut to the first 30; on routes without an infinite coordinate this is the
  specification's valid geometry. So 30 or more routes with such geometry (50, say) give
  exactly the first 30. Stop markers are built only with a route selected: with none
  selected a route has no marker; with one selected the markers of a route are built
  from its stops in order and the ones drawn are those of the stops whose location
  passes the stop test, at that location.
\<close>

theorem active_set_selection:
  "displayRoutes rs (Some r) = [r] \<and>
   displayRoutes rs None = take 30 (filter hasAcceptedGeometry rs) \<and>
   ((\<forall>x \<in> set rs. finiteGeometry x) \<longrightarrow>
      displayRoutes rs None = take 30 (filter specHasValidGeometry rs)) \<and>
   subseq (displayRoutes rs None) rs \<and>
   (\<forall>x. specHasValidGeometry x \<longrightarrow> hasAcceptedGeometry x) \<and>
   (30 \<le> length rs \<and> (\<forall>x \<in> set rs. hasAcceptedGeometry x) \<longrightarrow>
      displayRoutes rs None = take 30 rs \<and> length (displayRoutes rs None) = 30) \<and>
   stopMarkers B None route = None \<and>
   (\<forall>g. routeOverlay B None route = Inr g \<longrightarrow> drawnMarkers g = []) \<and>
   (\<forall>ss. stops route = Some ss \<longrightarrow>
      stopMarkers B (Some r) route =
        Some (map (\<lambda>(i, s). stopMarker B route i s) (enumerate 0 ss))) \<and>
   (\<forall>g. routeOverlay B (Some r) route = Inr g \<longrightarrow>
      map position (drawnMarkers g) =
        map (\<lambda>s. (stopLat B s, stopLon B s)) (filter (stopValid B) (stopsOf route)))"
proof -
  have eq: "hasValidFlow = hasAcceptedGeometry"
    by (rule ext) (rule hasValidFlow_accepted)
  have a: "displayRoutes rs (Some r) = [r]"
    by (simp add: displayRoutes_def)
  have b: "displayRoutes rs None = take 30 (filter hasAcceptedGeometry rs)"
    by (simp add: displayRoutes_def eq)
  have c: "(\<forall>x \<in> set rs. finiteGeometry x) \<longrightarrow>
      displayRoutes rs None = take 30 (filter specHasValidGeometry rs)"
  proof
    assume "\<forall>x \<in> set rs. finiteGeometry x"
    then have "filter hasAcceptedGeometry rs = filter specHasValidGeometry rs"
      by (intro filter_cong) (simp_all add: accepted_eq_spec)
    with b show "displayRoutes rs None = take 30 (filter specHasValidGeometry rs)"
      by simp
  qed
  have d: "subseq (displayRoutes rs None) rs"
    by (simp add: b subseq_take_filter)
  have e: "\<forall>x. specHasValidGeometry x \<longrightarrow> hasAcceptedGeometry x"
    by (simp add: spec_imp_accepted)
  have f: "30 \<le> length rs \<and> (\<forall>x \<in> set rs. hasAcceptedGeometry x) \<longrightarrow>
      displayRoutes rs None = take 30 rs \<and> length (displayRoutes rs None) = 30"
  proof
    assume h: "30 \<le> length rs \<and> (\<forall>x \<in> set rs. hasAcceptedGeometry x)"
    then have "filter hasAcceptedGeometry rs = rs"
      by simp
    with b h show "displayRoutes rs None = take 30 rs \<and> length (displayRoutes rs None) = 30"
      by simp
  qed
  have g: "stopMarkers B None route = None"
    by (simp add: stopMarkers_def)
  have h: "\<forall>g. routeOverlay B None route = Inr g \<longrightarrow> drawnMarkers g = []"
    by (simp add: routeOverlay_eq drawnMarkers_none)
  have i: "\<forall>ss. stops route = Some ss \<longrightarrow>
      stopMarkers B (Some r) route =
        Some (map (\<lambda>(i, s). stopMarker B route i s) (enumerate 0 ss))"
    by (simp add: stopMarkers_def)
  have j: "\<forall>g. routeOverlay B (Some r) route = Inr g \<longrightarrow>
      map position (drawnMarkers g) =
        map (\<lambda>s. (stopLat B s, stopLon B s)) (filter (stopValid B) (stopsOf route))"
    by (simp add: routeOverlay_eq drawnMarkers_positions)
  show ?thesis
    by (rule conjI [OF a conjI [OF b conjI [OF c conjI [OF d conjI [OF e conjI [OF f
        conjI [OF g conjI [OF h conjI [OF i j]]]]]]]]])
qed

lemma sample_accepted: "hasAcceptedGeometry (sampleRoute\<lparr>stopCount := t\<rparr>)"
proof -
  have "acceptedCoord (Some \<lparr>lat = Fin 40.40, lon = Fin 49.86\<rparr>)"
    by (simp add: accepted_def)
  then show ?thesis
    unfolding hasAcceptedGeometry_def variantsOf_def coordsOf_def sampleRoute_def
      sampleVariant_def
    by simp
qed

lemma fifty_accepted: "\<forall>x \<in> set fifty. hasAcceptedGeometry x"
  by (auto simp add: fifty_def sample_accepted)

lemma sample_stop_positions:
  "map (\<lambda>s. (stopLat sampleBuiltins s, stopLon sampleBuiltins s))
     (filter (stopValid sampleBuiltins) (stopsOf sampleRoute)) =
   [(Fin 40.40, Fin 49.86), (Fin 40.41, Fin 49.86), (Fin 40.41, Fin 49.87)]"
  by (simp add: stopsOf_def sampleRoute_def stopValid_def stopLat_def stopLon_def sampleStop_def
      sampleBuiltins_def orZero_def stopCoordOk_def truthy_def isNaN_def strictEq_def)

theorem active_set_selection_witness:
  "length fifty = 50 \<and>
   displayRoutes fifty None = take 30 fifty \<and> length (displayRoutes fifty None) = 30 \<and>
   displayRoutes fifty (Some sampleRoute) = [sampleRoute] \<and>
   displayRoutes [emptyRoute, infRoute, sampleRoute] None = [infRoute, sampleRoute] \<and>
   stopMarkers sampleBuiltins None sampleRoute = None \<and>
   (\<exists>g. routeOverlay sampleBuiltins (Some sampleRoute) sampleRoute = Inr g \<and>
        map position (drawnMarkers g) =
          [(Fin 40.40, Fin 49.86), (Fin 40.41, Fin 49.86), (Fin 40.41, Fin 49.87)])"
proof -
  note t = active_set_selection [of fifty sampleRoute sampleBuiltins sampleRoute]
  have 1: "length fifty = 50"
    by (simp add: fifty_def)
  have 2: "displayRoutes fifty None = take 30 fifty \<and> length (displayRoutes fifty None) = 30"
    using t fifty_accepted 1 by simp
  have 3: "displayRoutes fifty (Some sampleRoute) = [sampleRoute]"
    using t by simp
  have e: "\<not> hasAcceptedGeometry emptyRoute"
    by (simp add: hasAcceptedGeometry_def variantsOf_def coordsOf_def emptyRoute_def accepted_def)
  have i: "hasAcceptedGeometry infRoute"
    by (simp add: hasAcceptedGeometry_def variantsOf_def coordsOf_def infRoute_def infVariant_def
        accepted_def)
  have s: "hasAcceptedGeometry sampleRoute"
    using sample_accepted [of "stopCount sampleRoute"] by simp
  have 4: "displayRoutes [emptyRoute, infRoute, sampleRoute] None = [infRoute, sampleRoute]"
    using active_set_selection [of "[emptyRoute, infRoute, sampleRoute]" sampleRoute
        sampleBuiltins sampleRoute] e i s
    by simp
  have 5: "stopMarkers sampleBuiltins None sampleRoute = None"
    using t by simp
  obtain g where g: "routeOverlay sampleBuiltins (Some sampleRoute) sampleRoute = Inr g"
    by (simp add: routeOverlay_eq)
  have "map position (drawnMarkers g) =
      map (\<lambda>s. (stopLat sampleBuiltins s, stopLon sampleBuiltins s))
        (filter (stopValid sampleBuiltins) (stopsOf sampleRoute))"
    using t g by blast
  then have 6: "\<exists>g. routeOverlay sampleBuiltins (Some sampleRoute) sampleRoute = Inr g \<and>
        map position (drawnMarkers g) =
          [(Fin 40.40, Fin 49.86), (Fin 40.41, Fin 49.86), (Fin 40.41, Fin 49.87)]"
    using g sample_stop_positions by (intro exI [of _ g]) simp
  show ?thesis
    using 1 2 3 4 5 6 by (intro conjI) simp_all
qed

section \<open>The viewport controller\<close>

lemma stopValid_accepted: "stopValid B s = accepted (stopLat B s) (stopLon B s)"
  by (auto simp add: stopValid_def stopCoordOk_def accepted_def truthy_def isNaN_def strictEq_def)

lemma stopPoints_empty:
  "(stopPoints B route = []) = (\<forall>s \<in> set (stopsOf route). \<not> accepted (stopLat B s) (stopLon B s))"
  by (cases "stops route")
     (auto simp add: stopPoints_def stopsOf_def filter_empty_conv stopValid_accepted [unfolded stopValid_def])

lemma flowPoints_empty: "(flowPoints route = []) = (\<not> hasAcceptedGeometry route)"
  by (cases "routes route")
     (auto simp add: flowPoints_def hasAcceptedGeometry_def variantsOf_def variantPoints_empty
        variantHasValid_accepted)

lemma bounds_empty:
  "(bounds B rs = []) =
     (\<forall>route \<in> set rs.
        (\<forall>s \<in> set (stopsOf route). \<not> accepted (stopLat B s) (stopLon B s)) \<and>
        \<not> hasAcceptedGeometry route)"
  by (simp add: bounds_def stopPoints_empty flowPoints_empty)

lemma render_runs_effect:
  assumes "mounted st" and "freshState st"
  shows "fst (renderRouteMap B st rs sel) = mapUpdaterEffect B (displayRoutes rs sel)"
    and "mounted (snd (renderRouteMap B st rs sel))"
    and "freshState (snd (renderRouteMap B st rs sel))"
proof -
  have "updaterDeps st \<noteq> Some \<lparr>routesRef = nextRef st, mapRef = theMap st\<rparr>"
    using assms(2) by (auto simp add: freshState_def split: option.splits)
  then show "fst (renderRouteMap B st rs sel) = mapUpdaterEffect B (displayRoutes rs sel)"
    using assms(1) by (simp add: renderRouteMap_def mapUpdaterRender_def Let_def)
  show "mounted (snd (renderRouteMap B st rs sel))"
    using assms(1) by (simp add: renderRouteMap_def Let_def)
  show "freshState (snd (renderRouteMap B st rs sel))"
    using assms(1) by (simp add: renderRouteMap_def mapUpdaterRender_def Let_def freshState_def)
qed

lemma sample_effect:
  "mapUpdaterEffect sampleBuiltins [sampleRoute] =
     [FitBounds (Some \<lparr>south = Fin 40.40, west = Fin 49.86, north = Fin 40.41, east = Fin 49.87\<rparr>)
        (50, 50)]"
proof -
  have "bounds sampleBuiltins [sampleRoute] \<noteq> []"
    by (simp add: sample_bounds)
  from effect_nonempty [OF this] show ?thesis
    by (simp only: sample_bounds sample_region)
qed

lemma inf_effect:
  "mapUpdaterEffect B [infRoute] =
     [FitBounds (Some \<lparr>south = PInf, west = Fin 1, north = PInf, east = Fin 1\<rparr>) (50, 50)]"
  by (simp add: mapUpdaterEffect_def bounds_def stopPoints_def flowPoints_def variantPoints_def
      infRoute_def infVariant_def truthy_def isNaN_def)

text \<open>
  C3, as stated, fails twice. The route whose only coordinate is (Infinity, 1) has no
  stop and no valid point in the specification's sense, yet the effect issues a fit
  command for it. And two renders of the mounted component in a row with the same routes
  and no selection each issue the fit command for R1: the second is issued for an active
  set of unchanged content.
\<close>

theorem viewport_fit_counterexample:
  "stopsOf infRoute = [] \<and> \<not> specHasValidGeometry infRoute \<and>
   fst (mapUpdaterRender sampleBuiltins None \<lparr>routesRef = 1, mapRef = 0\<rparr> [infRoute]) =
     [FitBounds (Some \<lparr>south = PInf, west = Fin 1, north = PInf, east = Fin 1\<rparr>) (50, 50)] \<and>
   fst (renderRouteMap sampleBuiltins mountedState [sampleRoute] None) =
     [FitBounds (Some \<lparr>south = Fin 40.40, west = Fin 49.86, north = Fin 40.41, east = Fin 49.87\<rparr>)
        (50, 50)] \<and>
   fst (renderRouteMap sampleBuiltins
          (snd (renderRouteMap sampleBuiltins mountedState [sampleRoute] None))
          [sampleRoute] None) =
     [FitBounds (Some \<lparr>south = Fin 40.40, west = Fin 49.86, north = Fin 40.41, east = Fin 49.87\<rparr>)
        (50, 50)]"
proof -
  have 1: "stopsOf infRoute = []"
    by (simp add: stopsOf_def infRoute_def)
  have 2: "\<not> specHasValidGeometry infRoute"
    by (simp add: specHasValidGeometry_def variantsOf_def coordsOf_def infRoute_def
        infVariant_def specValid_def)
  have 3: "fst (mapUpdaterRender sampleBuiltins None \<lparr>routesRef = 1, mapRef = 0\<rparr> [infRoute]) =
     [FitBounds (Some \<lparr>south = PInf, west = Fin 1, north = PInf, east = Fin 1\<rparr>) (50, 50)]"
    by (simp add: mapUpdaterRender_def inf_effect)
  have d: "displayRoutes [sampleRoute] None = [sampleRoute]"
    using sample_accepted [of "stopCount sampleRoute"]
    by (simp add: displayRoutes_def hasValidFlow_accepted)
  have m: "mounted mountedState" and f: "freshState mountedState"
    by (simp_all add: mountedState_def freshState_def)
  have 4: "fst (renderRouteMap sampleBuiltins mountedState [sampleRoute] None) =
     [FitBounds (Some \<lparr>south = Fin 40.40, west = Fin 49.86, north = Fin 40.41, east = Fin 49.87\<rparr>)
        (50, 50)]"
    by (simp add: render_runs_effect(1) [OF m f] d sample_effect)
  have 5: "fst (renderRouteMap sampleBuiltins
          (snd (renderRouteMap sampleBuiltins mountedState [sampleRoute] None))
          [sampleRoute] None) =
     [FitBounds (Some \<lparr>south = Fin 40.40, west = Fin 49.86, north = Fin 40.41, east = Fin 49.87\<rparr>)
        (50, 50)]"
  proof -
    let ?st = "snd (renderRouteMap sampleBuiltins mountedState [sampleRoute] None)"
    have m1: "mounted ?st"
      by (rule render_runs_effect(2) [OF m f])
    have f1: "freshState ?st"
      by (rule render_runs_effect(3) [OF m f])
    show ?thesis
      by (simp add: render_runs_effect(1) [OF m1 f1] d sample_effect)
  qed
  show ?thesis
    by (rule conjI [OF 1 conjI [OF 2 conjI [OF 3 conjI [OF 4 5]]]])
qed

text \<open>
  C3, amended. A run of MapUpdater's effect, at its first render or at a render where
  the array of active routes or the map is not the object of the render before, issues
  exactly one fit command, to the region of the merged points with padding (50, 50),
  when the merged list has a point, and no command when it has none; a render issues at
  most one command. The merged list is empty exactly when no stop of the active routes
  has an accepted location and no active route an accepted flow coordinate (no NaN and
  no zero component, an infinite component included).
\<close>

theorem viewport_fit:
  "(prev \<noteq> Some deps \<and> bounds B rs \<noteq> [] \<longrightarrow>
      fst (mapUpdaterRender B prev deps rs) = [FitBounds (latLngBounds (bounds B rs)) (50, 50)] \<and>
      latLngBounds (bounds B rs) \<noteq> None) \<and>
   (prev \<noteq> Some deps \<and> bounds B rs = [] \<longrightarrow> fst (mapUpdaterRender B prev deps rs) = []) \<and>
   length (fst (mapUpdaterRender B prev deps rs)) \<le> 1 \<and>
   (bounds B rs = []) =
     (\<forall>route \<in> set rs.
        (\<forall>s \<in> set (stopsOf route). \<not> accepted (stopLat B s) (stopLon B s)) \<and>
        \<not> hasAcceptedGeometry route)"
proof -
  have "latLngBounds ps \<noteq> None" if "ps \<noteq> []" for ps
    using that by (cases ps) simp_all
  then have "(prev \<noteq> Some deps \<and> bounds B rs \<noteq> [] \<longrightarrow>
      fst (mapUpdaterRender B prev deps rs) = [FitBounds (latLngBounds (bounds B rs)) (50, 50)] \<and>
      latLngBounds (bounds B rs) \<noteq> None) \<and>
   (prev \<noteq> Some deps \<and> bounds B rs = [] \<longrightarrow> fst (mapUpdaterRender B prev deps rs) = []) \<and>
   length (fst (mapUpdaterRender B prev deps rs)) \<le> 1"
    by (cases "bounds B rs = []") (simp_all add: mapUpdaterRender_def effect_nonempty effect_empty)
  with bounds_empty [of B rs] show ?thesis by blast
qed

theorem viewport_fit_witness:
  "fst (mapUpdaterRender sampleBuiltins None \<lparr>routesRef = 1, mapRef = 0\<rparr> [sampleRoute]) =
     [FitBounds (Some \<lparr>south = Fin 40.40, west = Fin 49.86, north = Fin 40.41, east = Fin 49.87\<rparr>)
        (50, 50)] \<and>
   fst (mapUpdaterRender sampleBuiltins (Some \<lparr>routesRef = 1, mapRef = 0\<rparr>)
          \<lparr>routesRef = 2, mapRef = 0\<rparr> [emptyRoute]) = [] \<and>
   bounds sampleBuiltins [emptyRoute] = [] \<and>
   stopsOf emptyRoute = [] \<and> \<not> hasAcceptedGeometry emptyRoute"
proof -
  have ne: "bounds sampleBuiltins [sampleRoute] \<noteq> []"
    by (simp add: sample_bounds)
  have r: "latLngBounds (bounds sampleBuiltins [sampleRoute]) =
      Some \<lparr>south = Fin 40.40, west = Fin 49.86, north = Fin 40.41, east = Fin 49.87\<rparr>"
    by (simp only: sample_bounds sample_region)
  have s: "stopsOf emptyRoute = []"
    by (simp add: stopsOf_def emptyRoute_def)
  have e: "\<not> hasAcceptedGeometry emptyRoute"
    by (simp add: hasAcceptedGeometry_def variantsOf_def coordsOf_def emptyRoute_def accepted_def)
  have em: "bounds sampleBuiltins [emptyRoute] = []"
    using viewport_fit [of None "\<lparr>routesRef = 1, mapRef = 0\<rparr>" sampleBuiltins "[emptyRoute]"] s e
    by simp
  have 1: "fst (mapUpdaterRender sampleBuiltins None \<lparr>routesRef = 1, mapRef = 0\<rparr> [sampleRoute]) =
     [FitBounds (Some \<lparr>south = Fin 40.40, west = Fin 49.86, north = Fin 40.41, east = Fin 49.87\<rparr>)
        (50, 50)]"
    using viewport_fit [of None "\<lparr>routesRef = 1, mapRef = 0\<rparr>" sampleBuiltins "[sampleRoute]"] ne
    by (simp add: r)
  have 3: "fst (mapUpdaterRender sampleBuiltins (Some \<lparr>routesRef = 1, mapRef = 0\<rparr>)
          \<lparr>routesRef = 2, mapRef = 0\<rparr> [emptyRoute]) = []"
    using viewport_fit [of "Some \<lparr>routesRef = 1, mapRef = 0\<rparr>" "\<lparr>routesRef = 2, mapRef = 0\<rparr>"
        sampleBuiltins "[emptyRoute]"] em
    by simp
  show ?thesis
    by (rule conjI [OF 1 conjI [OF 3 conjI [OF em conjI [OF s e]]]])
qed

section \<open>Records with missing values: agreement with the typed records\<close>

text \<open>On a record that has every value its type promises, the source with error
  branches returns what the definitions on typed records return.\<close>

lemma bindE_simps [simp]: "bindE (Inr x) f = f x" "bindE (Inl e) f = Inl e"
  by (simp_all add: bindE_def)

lemma mapE_map_total:
  "(\<And>x. x \<in> set xs \<Longrightarrow> f (h x) = Inr (g x)) \<Longrightarrow> mapE f (map h xs) = Inr (map g xs)"
  by (induction xs) simp_all

lemma someE_map_total:
  "(\<And>x. x \<in> set xs \<Longrightarrow> p (h x) = Inr (q x)) \<Longrightarrow> someE p (map h xs) = Inr (list_ex q xs)"
  by (induction xs) simp_all

lemma filterE_map_total:
  "(\<And>x. x \<in> set xs \<Longrightarrow> p (h x) = Inr (q x)) \<Longrightarrow>
   filterE p (map h xs) = Inr (map h (filter q xs))"
  by (induction xs) simp_all

lemma enumerate_map: "enumerate n (map f xs) = map (\<lambda>iv. (fst iv, f (snd iv))) (enumerate n xs)"
  by (induction xs arbitrary: n) simp_all

lemma concat_singletons: "concat (map (\<lambda>x. if P x then [f x] else []) xs) = map f (filter P xs)"
  by (induction xs) simp_all

lemma rawStopLat_of [simp]: "rawStopLat B (rawStopOf s) = stopLat B s"
  by (simp add: rawStopLat_def rawStopOf_def stopLat_def)

lemma rawStopLon_of [simp]: "rawStopLon B (rawStopOf s) = stopLon B s"
  by (simp add: rawStopLon_def rawStopOf_def stopLon_def)

lemma rawStopPoints_of:
  "concatE (rawStopPoint B) (map (\<lambda>s. Some (rawStopOf s)) ss) =
     Inr (map (\<lambda>s. (stopLat B s, stopLon B s))
            (filter (\<lambda>s. stopCoordOk (stopLat B s) (stopLon B s)) ss))"
proof -
  have "mapE (rawStopPoint B) (map (\<lambda>s. Some (rawStopOf s)) ss) =
      Inr (map (\<lambda>s. if stopCoordOk (stopLat B s) (stopLon B s)
                    then [(stopLat B s, stopLon B s)] else []) ss)"
    by (rule mapE_map_total) simp
  then show ?thesis
    by (simp add: concatE_def concat_singletons)
qed

lemma rawVariantPoints_of:
  "concatE rawVariantPoints (map Some vs) = Inr (concat (map variantPoints vs))"
proof -
  have "mapE rawVariantPoints (map Some vs) = Inr (map variantPoints vs)"
    by (rule mapE_map_total) simp
  then show ?thesis by (simp add: concatE_def)
qed

lemma rawRoutePoints_of:
  "rawRoutePoints B (Some (rawOf t)) = Inr (stopPoints B t @ flowPoints t)"
proof -
  have a: "(case rawStops (rawOf t) of None \<Rightarrow> Inr [] | Some ss \<Rightarrow> concatE (rawStopPoint B) ss) =
      Inr (stopPoints B t)"
    by (cases "stops t") (simp_all add: rawOf_def stopPoints_def rawStopPoints_of)
  have b: "(case rawRoutes (rawOf t) of None \<Rightarrow> Inr [] | Some vs \<Rightarrow> concatE rawVariantPoints vs) =
      Inr (flowPoints t)"
    by (cases "routes t") (simp_all add: rawOf_def flowPoints_def rawVariantPoints_of)
  show ?thesis
    by (simp add: a b)
qed

lemma rawBounds_of: "rawBounds B (map (\<lambda>t. Some (rawOf t)) ts) = Inr (bounds B ts)"
proof -
  have "mapE (rawRoutePoints B) (map (\<lambda>t. Some (rawOf t)) ts) =
      Inr (map (\<lambda>t. stopPoints B t @ flowPoints t) ts)"
    by (rule mapE_map_total) (simp del: rawRoutePoints.simps add: rawRoutePoints_of)
  then show ?thesis
    by (simp add: rawBounds_def concatE_def bounds_def)
qed

lemma rawMapUpdaterEffect_of:
  "rawMapUpdaterEffect B (map (\<lambda>t. Some (rawOf t)) ts) = Inr (mapUpdaterEffect B ts)"
  by (simp add: rawMapUpdaterEffect_def mapUpdaterEffect_def rawBounds_of Let_def)

lemma rawHasValidFlow_of: "rawHasValidFlow (Some (rawOf t)) = Inr (hasValidFlow t)"
proof (cases "routes t")
  case None
  then show ?thesis by (simp add: rawOf_def hasValidFlow_def)
next
  case (Some vs)
  have "someE rawVariantHasValid (map Some vs) = Inr (list_ex variantHasValid vs)"
    by (rule someE_map_total) simp
  with Some show ?thesis by (simp add: rawOf_def hasValidFlow_def)
qed

lemma rawDisplayRoutes_of:
  "rawDisplayRoutes (map (\<lambda>t. Some (rawOf t)) ts) (map_option rawOf sel) =
     Inr (map (\<lambda>t. Some (rawOf t)) (displayRoutes ts sel))"
proof (cases sel)
  case None
  have "filterE rawHasValidFlow (map (\<lambda>t. Some (rawOf t)) ts) =
      Inr (map (\<lambda>t. Some (rawOf t)) (filter hasValidFlow ts))"
    by (rule filterE_map_total) (simp del: rawHasValidFlow.simps add: rawHasValidFlow_of)
  with None show ?thesis
    by (simp add: rawDisplayRoutes_def displayRoutes_def take_map)
next
  case (Some r)
  then show ?thesis by (simp add: rawDisplayRoutes_def displayRoutes_def)
qed

lemma rawPolylineElement_of:
  "rawPolylineElement B (map_option rawOf sel) (rawOf t) idx cs (avgSpeed t) =
     rawLineOf (polylineElement B sel t idx cs)"
  by (simp add: rawPolylineElement_def rawLineOf_def polylineElement_def rawOf_def)

lemma rawRouteLine_of:
  "rawRouteLine B (map_option rawOf sel) (rawOf t) idx (Some v) =
     Inr (map_option rawLineOf (lineOf B sel t (idx, v)))"
proof (cases "flowCoordinates v")
  case None
  then show ?thesis by (simp add: lineOf_def variantHasValid_def)
next
  case (Some cs)
  have p: "variantPoints v = concat (map flowPoint cs)"
    using Some by (simp add: variantPoints_def)
  have e: "(concat (map flowPoint cs) = []) = (\<not> variantHasValid v)"
    using variantPoints_empty [of v] by (simp add: p)
  have a: "rawAvgSpeed (rawOf t) = Some (avgSpeed t)"
    by (simp add: rawOf_def)
  show ?thesis
  proof (cases "variantHasValid v")
    case True
    then have "cs \<noteq> []" using Some by (auto simp add: variantHasValid_def)
    with True Some e show ?thesis
      by (simp add: mapE_coordPair_valid a lineOf_def p rawPolylineElement_of)
  next
    case False
    with Some e show ?thesis
      by (simp add: mapE_coordPair_valid lineOf_def)
  qed
qed

lemma rawRouteLines_of:
  "rawRouteLines B (map_option rawOf sel) (rawOf t) =
     Inr (map_option (map (map_option rawLineOf)) (groupLines (groupOf B sel t)))"
proof (cases "routes t")
  case None
  then show ?thesis by (simp add: rawRouteLines_def rawOf_def groupOf_def)
next
  case (Some vs)
  have "mapE (\<lambda>(idx, v). rawRouteLine B (map_option rawOf sel) (rawOf t) idx v)
          (map (\<lambda>iv. (fst iv, Some (snd iv))) (enumerate 0 vs)) =
        Inr (map (\<lambda>iv. map_option rawLineOf (lineOf B sel t iv)) (enumerate 0 vs))"
    by (rule mapE_map_total) (simp del: rawRouteLine.simps add: rawRouteLine_of)
  with Some show ?thesis
    by (simp add: rawRouteLines_def rawOf_def groupOf_def enumerate_map)
qed

lemma rawStopMarker_of:
  "rawStopMarker B (rawOf t) i (Some (rawStopOf s)) = Inr (stopMarker B t i s)"
proof -
  have l: "(case rawStops (rawOf t) of None \<Rightarrow> 0 | Some ss \<Rightarrow> length ss) =
      (case stops t of None \<Rightarrow> 0 | Some ss \<Rightarrow> length ss)"
    by (cases "stops t") (simp_all add: rawOf_def)
  have f: "rawStopId (rawStopOf s) = stop_id s" "rawStopLocation (rawStopOf s) = stop s"
      "rawTotalDistance (rawStopOf s) = Some (totalDistance s)"
    by (simp_all add: rawStopOf_def)
  show ?thesis
    by (simp add: stopMarker_def Let_def l f isHubStop_def)
qed

lemma rawStopMarkers_of:
  "rawStopMarkers B (map_option rawOf sel) (rawOf t) = Inr (stopMarkers B sel t)"
proof (cases sel)
  case None
  then show ?thesis by (simp add: rawStopMarkers_def stopMarkers_def)
next
  case (Some r)
  show ?thesis
  proof (cases "stops t")
    case None
    with Some show ?thesis by (simp add: rawStopMarkers_def stopMarkers_def rawOf_def)
  next
    case s: (Some ss)
    have "mapE (\<lambda>(stopIdx, s). rawStopMarker B (rawOf t) stopIdx s)
          (map (\<lambda>iv. (fst iv, Some (rawStopOf (snd iv)))) (enumerate 0 ss)) =
        Inr (map (\<lambda>iv. stopMarker B t (fst iv) (snd iv)) (enumerate 0 ss))"
      by (rule mapE_map_total) (simp del: rawStopMarker.simps add: rawStopMarker_of)
    moreover have "(\<lambda>iv. stopMarker B t (fst iv) (snd iv)) = (\<lambda>(i, x). stopMarker B t i x)"
      by (rule ext) (simp add: case_prod_beta)
    ultimately show ?thesis
      using Some s by (simp add: rawStopMarkers_def stopMarkers_def rawOf_def enumerate_map)
  qed
qed

lemma rawRouteOverlay_of:
  "rawRouteOverlay B (map_option rawOf sel) (Some (rawOf t)) = Inr (rawGroupOf (groupOf B sel t))"
proof -
  have "rawRouteId (rawOf t) = route_id t"
    by (simp add: rawOf_def)
  then show ?thesis
    by (simp add: rawRouteLines_of rawStopMarkers_of rawGroupOf_def groupOf_def)
qed

lemma rawOverlayBuilder_of:
  "rawOverlayBuilder B (map_option rawOf sel) (map (\<lambda>t. Some (rawOf t)) ts) =
     Inr (map (\<lambda>t. rawGroupOf (groupOf B sel t)) ts)"
  unfolding rawOverlayBuilder_def
  by (rule mapE_map_total) (simp del: rawRouteOverlay.simps add: rawRouteOverlay_of)

lemma rawRender_of:
  "rawRender B (map (\<lambda>t. Some (rawOf t)) ts) (map_option rawOf sel) =
     Inr (map (\<lambda>t. Some (rawOf t)) (displayRoutes ts sel),
          map (\<lambda>t. rawGroupOf (groupOf B sel t)) (displayRoutes ts sel),
          mapUpdaterEffect B (displayRoutes ts sel))"
  by (simp add: rawRender_def rawDisplayRoutes_of rawOverlayBuilder_of rawMapUpdaterEffect_of)

section \<open>Variants without geometry, and what throws\<close>

lemma rawRouteLine_cases:
  "rawRouteLine B sel route idx (Some v) =
     (if variantHasValid v
      then (case rawAvgSpeed route of
              None \<Rightarrow> Inl TypeError
            | Some speed \<Rightarrow>
                Inr (Some (rawPolylineElement B sel route idx (variantPoints v) speed)))
      else Inr None)"
proof (cases "flowCoordinates v")
  case None
  then show ?thesis by (simp add: variantHasValid_def)
next
  case (Some cs)
  have p: "concat (map flowPoint cs) = variantPoints v"
    using Some by (simp add: variantPoints_def)
  show ?thesis
  proof (cases "variantHasValid v")
    case True
    then have ne: "variantPoints v \<noteq> []"
      by (simp add: variantPoints_empty)
    have "cs \<noteq> []"
      using True Some by (auto simp add: variantHasValid_def)
    with True Some ne show ?thesis
      by (simp add: mapE_coordPair_valid p)
  next
    case False
    then have "variantPoints v = []"
      by (simp add: variantPoints_empty)
    with False Some show ?thesis
      by (simp add: mapE_coordPair_valid p)
  qed
qed

lemma wellFormedStop_of: "wellFormedStop so \<Longrightarrow> \<exists>s. so = Some (rawStopOf s)"
proof (cases so)
  case None
  assume "wellFormedStop so"
  with None show ?thesis by simp
next
  case (Some r)
  assume "wellFormedStop so"
  with Some obtain d where d: "rawTotalDistance r = Some d" by auto
  have "r = rawStopOf \<lparr>stop_id = rawStopId r, stop = rawStopLocation r, totalDistance = d\<rparr>"
    using d by (simp add: rawStopOf_def)
  with Some show ?thesis by blast
qed

lemma wellFormedStops_of:
  "list_all wellFormedStop ss \<Longrightarrow> \<exists>ts. ss = map (\<lambda>s. Some (rawStopOf s)) ts"
proof (induction ss)
  case Nil
  show ?case by simp
next
  case (Cons so ss)
  then obtain s ts where "so = Some (rawStopOf s)" "ss = map (\<lambda>s. Some (rawStopOf s)) ts"
    using wellFormedStop_of [of so] by auto
  then have "so # ss = map (\<lambda>s. Some (rawStopOf s)) (s # ts)" by simp
  then show ?case by (rule exI)
qed

lemma present_of: "list_all (\<lambda>v. v \<noteq> None) vs \<Longrightarrow> \<exists>ws. vs = map Some ws"
proof (induction vs)
  case Nil
  show ?case by simp
next
  case (Cons vo vs)
  then obtain v ws where "vo = Some v" "vs = map Some ws" by auto
  then have "vo # vs = map Some (v # ws)" by simp
  then show ?case by (rule exI)
qed

lemma wellFormedRoute_of: "wellFormedRoute ro \<Longrightarrow> \<exists>t. ro = Some (rawOf t)"
proof (cases ro)
  case None
  assume "wellFormedRoute ro"
  with None show ?thesis by simp
next
  case (Some r)
  assume w: "wellFormedRoute ro"
  from w Some obtain a where a: "rawAvgSpeed r = Some a" by auto
  have "\<exists>ss. rawStops r = map_option (map (\<lambda>s. Some (rawStopOf s))) ss"
  proof (cases "rawStops r")
    case None
    then have "rawStops r = map_option (map (\<lambda>s. Some (rawStopOf s))) None" by simp
    then show ?thesis by blast
  next
    case s: (Some xs)
    with w Some obtain ts where "xs = map (\<lambda>s. Some (rawStopOf s)) ts"
      using wellFormedStops_of [of xs] by auto
    with s have "rawStops r = map_option (map (\<lambda>s. Some (rawStopOf s))) (Some ts)" by simp
    then show ?thesis by blast
  qed
  then obtain ss where ss: "rawStops r = map_option (map (\<lambda>s. Some (rawStopOf s))) ss" ..
  have "\<exists>vs. rawRoutes r = map_option (map Some) vs"
  proof (cases "rawRoutes r")
    case None
    then have "rawRoutes r = map_option (map Some) None" by simp
    then show ?thesis by blast
  next
    case v: (Some xs)
    with w Some obtain ws where "xs = map Some ws"
      using present_of [of xs] by auto
    with v have "rawRoutes r = map_option (map Some) (Some ws)" by simp
    then show ?thesis by blast
  qed
  then obtain vs where vs: "rawRoutes r = map_option (map Some) vs" ..
  have "r = rawOf \<lparr>route_id = rawRouteId r, number = rawNumber r,
      firstPoint = rawFirstPoint r, lastPoint = rawLastPoint r, avgSpeed = a,
      routLength = rawRoutLength r, stopCount = rawStopCount r, carrier = rawCarrier r,
      stops = ss, routes = vs\<rparr>"
    using a ss vs by (simp add: rawOf_def)
  with Some show ?thesis by blast
qed

lemma wellFormedRoutes_of:
  "\<forall>ro \<in> set rs. wellFormedRoute ro \<Longrightarrow> \<exists>ts. rs = map (\<lambda>t. Some (rawOf t)) ts"
proof (induction rs)
  case Nil
  show ?case by simp
next
  case (Cons ro rs)
  then obtain t ts where "ro = Some (rawOf t)" "rs = map (\<lambda>t. Some (rawOf t)) ts"
    using wellFormedRoute_of [of ro] by auto
  then have "ro # rs = map (\<lambda>t. Some (rawOf t)) (t # ts)" by simp
  then show ?case by (rule exI)
qed

lemma wellFormedSel_of: "sel = None \<or> wellFormedRoute sel \<Longrightarrow> \<exists>s. sel = map_option rawOf s"
proof (cases sel)
  case None
  then have "sel = map_option rawOf None" by simp
  then show ?thesis by blast
next
  case (Some r)
  assume "sel = None \<or> wellFormedRoute sel"
  with Some obtain t where "sel = Some (rawOf t)"
    using wellFormedRoute_of [of sel] by auto
  then have "sel = map_option rawOf (Some t)" by simp
  then show ?thesis by blast
qed

lemma map_filter_map_option:
  "List.map_filter (\<lambda>l. l) (map (map_option f) xs) = map f (List.map_filter (\<lambda>l. l) xs)"
proof (induction xs)
  case Nil
  show ?case by simp
next
  case (Cons x xs)
  then show ?case by (cases x) simp_all
qed

lemma rawDrawnLines_of: "rawDrawnLines (rawGroupOf g) = map rawLineOf (drawnLines g)"
  by (cases "groupLines g")
     (simp_all add: rawDrawnLines_def rawGroupOf_def drawnLines_def map_filter_map_option)

lemma rawDrawnMarkers_of: "rawDrawnMarkers (rawGroupOf g) = drawnMarkers g"
  by (simp add: rawDrawnMarkers_def rawGroupOf_def drawnMarkers_def)

lemma entryAccepted_of:
  "length (filter entryAccepted (rawVariantsOf (rawOf t))) =
     length (filter variantHasValid (variantsOf t))"
proof (cases "routes t")
  case None
  then show ?thesis by (simp add: rawVariantsOf_def rawOf_def variantsOf_def)
next
  case (Some vs)
  have "filter entryAccepted (map Some vs) = map Some (filter variantHasValid vs)"
    by (induction vs) (simp_all add: variantHasValid_accepted)
  with Some show ?thesis by (simp add: rawVariantsOf_def rawOf_def variantsOf_def)
qed

lemma raw_lengths_of:
  "length (rawVariantsOf (rawOf t)) = length (variantsOf t)"
  "length (rawStopsOf (rawOf t)) = length (stopsOf t)"
proof -
  show "length (rawVariantsOf (rawOf t)) = length (variantsOf t)"
    by (cases "routes t") (simp_all add: rawVariantsOf_def rawOf_def variantsOf_def)
  show "length (rawStopsOf (rawOf t)) = length (stopsOf t)"
    by (cases "stops t") (simp_all add: rawStopsOf_def rawOf_def stopsOf_def)
qed

lemma raw_group_counts:
  "length (rawDrawnLines (rawGroupOf (groupOf B sel t))) =
     length (filter entryAccepted (rawVariantsOf (rawOf t))) \<and>
   length (rawDrawnLines (rawGroupOf (groupOf B sel t))) \<le> length (rawVariantsOf (rawOf t)) \<and>
   length (rawDrawnMarkers (rawGroupOf (groupOf B sel t))) \<le> length (rawStopsOf (rawOf t))"
proof -
  have "length (filter variantHasValid (variantsOf t)) \<le> length (variantsOf t)"
    by simp
  then show ?thesis
    by (simp add: rawDrawnLines_of rawDrawnMarkers_of drawnLines_count entryAccepted_of
        raw_lengths_of drawnMarkers_le)
qed

lemma wellFormed_render:
  assumes "\<forall>ro \<in> set rs. wellFormedRoute ro" and "sel = None \<or> wellFormedRoute sel"
  shows "\<exists>active gs commands.
      rawRender B rs sel = Inr (active, gs, commands) \<and> length gs = length active \<and>
      (\<forall>i < length active. \<exists>route. active ! i = Some route \<and>
         length (rawDrawnLines (gs ! i)) = length (filter entryAccepted (rawVariantsOf route)) \<and>
         length (rawDrawnLines (gs ! i)) \<le> length (rawVariantsOf route) \<and>
         length (rawDrawnMarkers (gs ! i)) \<le> length (rawStopsOf route))"
proof -
  obtain ts where ts: "rs = map (\<lambda>t. Some (rawOf t)) ts"
    using wellFormedRoutes_of [OF assms(1)] ..
  obtain s where s: "sel = map_option rawOf s"
    using wellFormedSel_of [OF assms(2)] ..
  let ?d = "displayRoutes ts s"
  let ?active = "map (\<lambda>t. Some (rawOf t)) ?d"
  let ?gs = "map (\<lambda>t. rawGroupOf (groupOf B s t)) ?d"
  have r: "rawRender B rs sel = Inr (?active, ?gs, mapUpdaterEffect B ?d)"
    unfolding ts s by (rule rawRender_of)
  have "\<exists>route. ?active ! i = Some route \<and>
         length (rawDrawnLines (?gs ! i)) = length (filter entryAccepted (rawVariantsOf route)) \<and>
         length (rawDrawnLines (?gs ! i)) \<le> length (rawVariantsOf route) \<and>
         length (rawDrawnMarkers (?gs ! i)) \<le> length (rawStopsOf route)"
    if "i < length ?active" for i
  proof -
    have i: "i < length ?d" using that by simp
    have "?active ! i = Some (rawOf (?d ! i))" "?gs ! i = rawGroupOf (groupOf B s (?d ! i))"
      using i by simp_all
    with raw_group_counts [of B s "?d ! i"] show ?thesis by simp
  qed
  with r show ?thesis
    by (intro exI [of _ ?active] exI [of _ ?gs] exI [of _ "mapUpdaterEffect B ?d"]) simp
qed

lemma sample_variant_valid: "variantHasValid sampleVariant"
  by (simp add: variantHasValid_def sampleVariant_def truthy_def isNaN_def)

lemma noSpeed_line:
  "rawRouteLine sampleBuiltins None noSpeedRoute 0 (Some sampleVariant) = Inl TypeError"
  by (simp only: rawRouteLine_cases sample_variant_valid if_True)
     (simp add: noSpeedRoute_def)

lemma noSpeed_overlay: "rawOverlayBuilder sampleBuiltins None [Some noSpeedRoute] = Inl TypeError"
proof -
  have "rawRoutes noSpeedRoute = Some [Some sampleVariant]"
    by (simp add: noSpeedRoute_def rawOf_def sampleRoute_def)
  then have "rawRouteLines sampleBuiltins None noSpeedRoute = Inl TypeError"
    by (simp add: rawRouteLines_def noSpeed_line del: rawRouteLine.simps)
  then show ?thesis
    by (simp add: rawOverlayBuilder_def)
qed

lemma noSpeed_active: "rawDisplayRoutes [Some noSpeedRoute] None = Inr [Some noSpeedRoute]"
proof -
  have "rawRoutes noSpeedRoute = Some [Some sampleVariant]"
    by (simp add: noSpeedRoute_def rawOf_def sampleRoute_def)
  then show ?thesis
    by (simp add: rawDisplayRoutes_def sample_variant_valid)
qed

lemma nullVariant_overlay:
  "rawOverlayBuilder sampleBuiltins None [Some nullVariantRoute] = Inl TypeError"
  by (simp add: rawOverlayBuilder_def rawRouteLines_def nullVariantRoute_def)

lemma noDistance_overlay:
  "rawOverlayBuilder sampleBuiltins (Some noDistanceRoute) [Some noDistanceRoute] = Inl TypeError"
proof -
  have l: "rawRouteLines sampleBuiltins (Some noDistanceRoute) noDistanceRoute =
      Inr (Some [Some (rawPolylineElement sampleBuiltins (Some noDistanceRoute) noDistanceRoute 0
        (variantPoints sampleVariant) (Fin 36.7))])"
  proof -
    have "rawRoutes noDistanceRoute = Some [Some sampleVariant]"
        "rawAvgSpeed noDistanceRoute = Some (Fin 36.7)"
      by (simp_all add: noDistanceRoute_def rawOf_def sampleRoute_def)
    then show ?thesis
      by (simp add: rawRouteLines_def rawRouteLine_cases sample_variant_valid
          del: rawRouteLine.simps)
  qed
  have m: "rawStopMarkers sampleBuiltins (Some noDistanceRoute) noDistanceRoute = Inl TypeError"
    by (simp add: rawStopMarkers_def noDistanceRoute_def rawStopOf_def sampleStop_def
        rawStopLat_def rawStopLon_def orZero_def sampleBuiltins_def stopCoordRejected_def
        truthy_def isNaN_def strictEq_def Let_def)
  show ?thesis
    by (simp add: rawOverlayBuilder_def l m)
qed

lemma nullStop_effect: "rawMapUpdaterEffect sampleBuiltins [Some nullStopRoute] = Inl TypeError"
  by (simp add: rawMapUpdaterEffect_def rawBounds_def concatE_def nullStopRoute_def)

text \<open>
  C7, as stated, fails. A record that lacks a value the source reads without a guard
  makes the pipeline throw: the route R1 without \<^verbatim>\<open>avgSpeed\<close> (line 138), with a
  null variant entry (line 109), with a stop without \<^verbatim>\<open>totalDistance\<close> when it is
  selected (line 201), with a null stop entry in the bounds accumulation (line 34). And
  a variant whose only coordinate is (Infinity, 1) has no valid coordinate in the
  specification's sense, yet it gives a path overlay.
\<close>

theorem empty_geometry_counterexample:
  "rawRender sampleBuiltins [Some noSpeedRoute] None = Inl TypeError \<and>
   rawOverlayBuilder sampleBuiltins None [Some nullVariantRoute] = Inl TypeError \<and>
   rawOverlayBuilder sampleBuiltins (Some noDistanceRoute) [Some noDistanceRoute] =
     Inl TypeError \<and>
   rawMapUpdaterEffect sampleBuiltins [Some nullStopRoute] = Inl TypeError \<and>
   list_all (\<lambda>c. \<not> specValidCoord c) (coordsOf infVariant) \<and>
   rawRouteLine sampleBuiltins None (rawOf infRoute) 0 (Some infVariant) =
     Inr (Some (rawPolylineElement sampleBuiltins None (rawOf infRoute) 0 [(PInf, Fin 1)]
                  (Fin 36.7)))"
proof -
  have 1: "rawRender sampleBuiltins [Some noSpeedRoute] None = Inl TypeError"
    by (simp add: rawRender_def noSpeed_active noSpeed_overlay)
  have 5: "list_all (\<lambda>c. \<not> specValidCoord c) (coordsOf infVariant)"
    by (simp add: coordsOf_def infVariant_def specValid_def)
  have v: "variantHasValid infVariant" "variantPoints infVariant = [(PInf, Fin 1)]"
    by (simp_all add: variantHasValid_def variantPoints_def infVariant_def truthy_def isNaN_def)
  have 6: "rawRouteLine sampleBuiltins None (rawOf infRoute) 0 (Some infVariant) =
     Inr (Some (rawPolylineElement sampleBuiltins None (rawOf infRoute) 0 [(PInf, Fin 1)]
                  (Fin 36.7)))"
    by (simp only: rawRouteLine_cases v if_True) (simp add: rawOf_def infRoute_def)
  show ?thesis
    by (rule conjI [OF 1 conjI [OF nullVariant_overlay conjI [OF noDistance_overlay
        conjI [OF nullStop_effect conjI [OF 5 6]]]]])
qed

text \<open>
  C7, amended. A path variant that is an object gives no path overlay exactly when none
  of its coordinates is accepted (not null, no NaN and no zero component, an infinite
  component included), in particular when its coordinate list is missing or empty; a
  path overlay that is built has the accepted points as its positions, at least one;
  the callback throws on such a variant exactly when it has an accepted coordinate and
  the route has no \<^verbatim>\<open>avgSpeed\<close>. When every route, stop and variant entry is an
  object, every route has its \<^verbatim>\<open>avgSpeed\<close> and every stop its \<^verbatim>\<open>totalDistance\<close>,
  nothing throws in the selection, the overlay construction and the viewport effect:
  the render returns one group per active route, in which the route has as many path
  overlays as variants with an accepted coordinate (at most its number of variants)
  and at most as many markers as stops.
\<close>

theorem empty_geometry_no_overlay:
  "(rawRouteLine B sel route idx (Some v) = Inr None) =
     (\<not> (\<exists>c \<in> set (coordsOf v). acceptedCoord c)) \<and>
   (coordsOf v = [] \<longrightarrow> rawRouteLine B sel route idx (Some v) = Inr None) \<and>
   (\<forall>p. rawRouteLine B sel route idx (Some v) = Inr (Some p) \<longrightarrow>
      rawPositions p = variantPoints v \<and> rawPositions p \<noteq> []) \<and>
   (rawRouteLine B sel route idx (Some v) = Inl TypeError) =
     ((\<exists>c \<in> set (coordsOf v). acceptedCoord c) \<and> rawAvgSpeed route = None) \<and>
   ((\<forall>ro \<in> set rs. wellFormedRoute ro) \<and> (sel = None \<or> wellFormedRoute sel) \<longrightarrow>
      (\<exists>active gs commands.
         rawRender B rs sel = Inr (active, gs, commands) \<and> length gs = length active \<and>
         (\<forall>i < length active. \<exists>r. active ! i = Some r \<and>
            length (rawDrawnLines (gs ! i)) = length (filter entryAccepted (rawVariantsOf r)) \<and>
            length (rawDrawnLines (gs ! i)) \<le> length (rawVariantsOf r) \<and>
            length (rawDrawnMarkers (gs ! i)) \<le> length (rawStopsOf r))))"
proof -
  note c = rawRouteLine_cases [of B sel route idx v]
  have a: "(rawRouteLine B sel route idx (Some v) = Inr None) =
     (\<not> (\<exists>c \<in> set (coordsOf v). acceptedCoord c))"
    unfolding c by (simp add: variantHasValid_accepted split: option.splits)
  have b: "coordsOf v = [] \<longrightarrow> rawRouteLine B sel route idx (Some v) = Inr None"
    using a by simp
  have d: "\<forall>p. rawRouteLine B sel route idx (Some v) = Inr (Some p) \<longrightarrow>
      rawPositions p = variantPoints v \<and> rawPositions p \<noteq> []"
    unfolding c
    by (auto simp add: rawPolylineElement_def variantPoints_empty split: option.splits if_splits)
  have e: "(rawRouteLine B sel route idx (Some v) = Inl TypeError) =
     ((\<exists>c \<in> set (coordsOf v). acceptedCoord c) \<and> rawAvgSpeed route = None)"
    unfolding c by (simp add: variantHasValid_accepted split: option.splits)
  have f: "(\<forall>ro \<in> set rs. wellFormedRoute ro) \<and> (sel = None \<or> wellFormedRoute sel) \<longrightarrow>
      (\<exists>active gs commands.
         rawRender B rs sel = Inr (active, gs, commands) \<and> length gs = length active \<and>
         (\<forall>i < length active. \<exists>r. active ! i = Some r \<and>
            length (rawDrawnLines (gs ! i)) = length (filter entryAccepted (rawVariantsOf r)) \<and>
            length (rawDrawnLines (gs ! i)) \<le> length (rawVariantsOf r) \<and>
            length (rawDrawnMarkers (gs ! i)) \<le> length (rawStopsOf r)))"
    using wellFormed_render [of rs sel B] by blast
  show ?thesis
    by (rule conjI [OF a conjI [OF b conjI [OF d conjI [OF e f]]]])
qed
lemma wf_samples:
  "wellFormedRoute (Some (rawOf t))"
proof -
  have "list_all wellFormedStop (map (\<lambda>s. Some (rawStopOf s)) ss)" for ss
    by (induction ss) (simp_all add: rawStopOf_def)
  moreover have "list_all (\<lambda>v. v \<noteq> None) (map Some vs)" for vs :: "variant list"
    by (induction vs) simp_all
  ultimately show ?thesis
    by (cases "stops t"; cases "routes t") (simp_all add: rawOf_def)
qed

theorem empty_geometry_no_overlay_witness:
  "rawRouteLine sampleBuiltins None (rawOf emptyRoute) 0 (Some (hd (variantsOf emptyRoute))) =
     Inr None \<and>
   rawRouteLine sampleBuiltins None (rawOf sampleRoute) 0 (Some \<lparr>flowCoordinates = Some []\<rparr>) =
     Inr None \<and>
   rawRouteLine sampleBuiltins None (rawOf sampleRoute) 0 (Some \<lparr>flowCoordinates = None\<rparr>) =
     Inr None \<and>
   (\<exists>gs. rawRender sampleBuiltins [Some (rawOf sampleRoute), Some (rawOf emptyRoute)] None =
          Inr ([Some (rawOf sampleRoute)], gs, mapUpdaterEffect sampleBuiltins [sampleRoute]) \<and>
        map (\<lambda>g. length (rawDrawnLines g)) gs = [1]) \<and>
   (\<exists>gs. rawRender sampleBuiltins [Some (rawOf sampleRoute)] (Some (rawOf emptyRoute)) =
          Inr ([Some (rawOf emptyRoute)], gs, []) \<and>
        map (\<lambda>g. length (rawDrawnLines g)) gs = [0])"
proof -
  let ?B = sampleBuiltins
  let ?v = "hd (variantsOf emptyRoute)"
  have v: "\<not> (\<exists>c \<in> set (coordsOf ?v). acceptedCoord c)"
    by (simp add: variantsOf_def coordsOf_def emptyRoute_def accepted_def)
  have 1: "rawRouteLine ?B None (rawOf emptyRoute) 0 (Some ?v) = Inr None"
    using empty_geometry_no_overlay [of ?B None "rawOf emptyRoute" 0 ?v] v by blast
  have 2: "rawRouteLine ?B None (rawOf sampleRoute) 0 (Some \<lparr>flowCoordinates = Some []\<rparr>) = Inr None"
    using empty_geometry_no_overlay [of ?B None "rawOf sampleRoute" 0 "\<lparr>flowCoordinates = Some []\<rparr>"]
    by (simp add: coordsOf_def del: rawRouteLine.simps)
  have 3: "rawRouteLine ?B None (rawOf sampleRoute) 0 (Some \<lparr>flowCoordinates = None\<rparr>) = Inr None"
    using empty_geometry_no_overlay [of ?B None "rawOf sampleRoute" 0 "\<lparr>flowCoordinates = None\<rparr>"]
    by (simp add: coordsOf_def del: rawRouteLine.simps)
  let ?rs = "[Some (rawOf sampleRoute), Some (rawOf emptyRoute)]"
  have w: "\<forall>ro \<in> set ?rs. wellFormedRoute ro"
    by (simp add: wf_samples del: wellFormedRoute.simps)
  obtain active gs commands where r: "rawRender ?B ?rs None = Inr (active, gs, commands)"
      "length gs = length active"
      "\<forall>i < length active. \<exists>r. active ! i = Some r \<and>
            length (rawDrawnLines (gs ! i)) = length (filter entryAccepted (rawVariantsOf r)) \<and>
            length (rawDrawnLines (gs ! i)) \<le> length (rawVariantsOf r) \<and>
            length (rawDrawnMarkers (gs ! i)) \<le> length (rawStopsOf r)"
    using empty_geometry_no_overlay [of ?B None "rawOf sampleRoute" 0 sampleVariant ?rs] w
    by blast
  have d: "displayRoutes [sampleRoute, emptyRoute] None = [sampleRoute]"
    by (simp add: displayRoutes_def hasValidFlow_def variantHasValid_def sampleRoute_def
        emptyRoute_def sampleVariant_def truthy_def isNaN_def)
  have "rawRender ?B ?rs None =
      Inr (map (\<lambda>t. Some (rawOf t)) (displayRoutes [sampleRoute, emptyRoute] None),
           map (\<lambda>t. rawGroupOf (groupOf ?B None t)) (displayRoutes [sampleRoute, emptyRoute] None),
           mapUpdaterEffect ?B (displayRoutes [sampleRoute, emptyRoute] None))"
    using rawRender_of [of ?B "[sampleRoute, emptyRoute]" None] by simp
  with r(1) have a: "active = [Some (rawOf sampleRoute)]"
      and c: "commands = mapUpdaterEffect ?B [sampleRoute]"
    by (simp_all add: d)
  have n: "length (filter entryAccepted (rawVariantsOf (rawOf sampleRoute))) = 1"
    by (simp add: entryAccepted_of variantsOf_def sampleRoute_def sample_variant_valid)
  have "length gs = 1" "length (rawDrawnLines (gs ! 0)) = 1"
    using r(2) r(3) a n by simp_all
  then have "map (\<lambda>g. length (rawDrawnLines g)) gs = [1]"
    by (cases gs) simp_all
  with r(1) a c have 4: "\<exists>gs. rawRender ?B ?rs None =
          Inr ([Some (rawOf sampleRoute)], gs, mapUpdaterEffect ?B [sampleRoute]) \<and>
        map (\<lambda>g. length (rawDrawnLines g)) gs = [1]"
    by (intro exI [of _ gs]) simp
  have e: "mapUpdaterEffect ?B [emptyRoute] = []"
    by (simp add: mapUpdaterEffect_def bounds_def stopPoints_def flowPoints_def variantPoints_def
        emptyRoute_def truthy_def isNaN_def)
  have z: "length (rawDrawnLines (rawGroupOf (groupOf ?B (Some emptyRoute) emptyRoute))) = 0"
    by (simp add: rawDrawnLines_of drawnLines_count variantsOf_def emptyRoute_def
        variantHasValid_def truthy_def isNaN_def)
  have "rawRender ?B [Some (rawOf sampleRoute)] (Some (rawOf emptyRoute)) =
      Inr ([Some (rawOf emptyRoute)], [rawGroupOf (groupOf ?B (Some emptyRoute) emptyRoute)], [])"
    using rawRender_of [of ?B "[sampleRoute]" "Some emptyRoute"]
    by (simp add: displayRoutes_def e)
  with z have 5: "\<exists>gs. rawRender ?B [Some (rawOf sampleRoute)] (Some (rawOf emptyRoute)) =
          Inr ([Some (rawOf emptyRoute)], gs, []) \<and>
        map (\<lambda>g. length (rawDrawnLines g)) gs = [0]"
    by (intro exI [of _ "[rawGroupOf (groupOf ?B (Some emptyRoute) emptyRoute)]"]) simp
  show ?thesis
    by (rule conjI [OF 1 conjI [OF 2 conjI [OF 3 conjI [OF 4 5]]]])
qed

end
